theory Spec2Isabelle
  imports Main "HOL-Library.Sublist"
begin

section \<open>Readiness probes (modules/core/proc/process-manager.mjs)\<close>

text \<open>
  The probes poll the outside world until a deadline. The outside world is an input of the
  model: one entry per loop iteration, holding the value \<^verbatim>\<open>Date.now()\<close> returns at the
  loop test of that iteration and what the request made in that iteration would observe.
  A probe whose observations run out before it decides returns \<open>None\<close>; \<open>Some b\<close> is the
  value the JavaScript function resolves to. \<^verbatim>\<open>sleep(intervalMs)\<close> only lets the clock
  advance, which the next entry's clock value records. The loops test the clock before a
  request only: a request that has been made is awaited, whatever the clock shows.
\<close>

datatype fetch_result = Response int | NetworkError

text \<open>\<^verbatim>\<open>okStatus(code)\<close>: \<^verbatim>\<open>code >= 200 && code < 500\<close>.\<close>

definition okStatus :: "int \<Rightarrow> bool" where
  "okStatus code \<longleftrightarrow> code \<ge> 200 \<and> code < 500"

type_synonym http_poll = "int \<times> (string \<Rightarrow> fetch_result)"

text \<open>
  \<^verbatim>\<open>waitForHTTP(url, { timeoutMs, intervalMs })\<close>; \<open>t0\<close> is the first clock reading.
  A rejected \<^verbatim>\<open>fetch\<close> is caught and the loop goes on.
\<close>

fun waitForHTTP :: "string \<Rightarrow> int \<Rightarrow> int \<Rightarrow> http_poll list \<Rightarrow> bool option" where
  "waitForHTTP url timeoutMs t0 [] = None"
| "waitForHTTP url timeoutMs t0 ((now, fetch) # rest) =
     (if now - t0 < timeoutMs then
        (case fetch url of
           Response status \<Rightarrow>
             if okStatus status then Some True else waitForHTTP url timeoutMs t0 rest
         | NetworkError \<Rightarrow> waitForHTTP url timeoutMs t0 rest)
      else Some False)"

text \<open>The polls made before the time budget is seen to be used up.\<close>

definition http_in_budget :: "int \<Rightarrow> int \<Rightarrow> http_poll list \<Rightarrow> http_poll list" where
  "http_in_budget timeoutMs t0 polls = takeWhile (\<lambda>p. fst p - t0 < timeoutMs) polls"

definition http_ready :: "string \<Rightarrow> http_poll \<Rightarrow> bool" where
  "http_ready url p = (case snd p url of Response status \<Rightarrow> 200 \<le> status \<and> status < 500
                                        | NetworkError \<Rightarrow> False)"

definition http_deadline_seen :: "int \<Rightarrow> int \<Rightarrow> http_poll list \<Rightarrow> bool" where
  "http_deadline_seen timeoutMs t0 polls = list_ex (\<lambda>p. \<not> fst p - t0 < timeoutMs) polls"

text \<open>
  \<^verbatim>\<open>String.prototype.includes\<close>: the second string occurs in the first as a contiguous
  run of characters.
\<close>

fun str_includes :: "string \<Rightarrow> string \<Rightarrow> bool" where
  "str_includes [] sub = (sub = [])"
| "str_includes (c # cs) sub = (prefix sub (c # cs) \<or> str_includes cs sub)"

type_synonym log_poll = "int \<times> (string \<Rightarrow> string option)"

text \<open>
  \<^verbatim>\<open>waitForLogPattern(logFile, regex, { timeoutMs, pollMs })\<close>. An entry holds the clock
  reading of the loop test and what reading a file gives in that iteration (\<open>None\<close> when
  \<^verbatim>\<open>Bun.file(logFile).arrayBuffer()\<close> rejects, which the loop catches). The regular
  expression is the predicate \<^verbatim>\<open>regex.test\<close> computes. \<open>offset\<close> is the loop variable of
  the source, 0 when the loop is entered.
\<close>

fun waitForLogPattern_loop ::
  "string \<Rightarrow> (string \<Rightarrow> bool) \<Rightarrow> int \<Rightarrow> nat \<Rightarrow> log_poll list \<Rightarrow> bool option" where
  "waitForLogPattern_loop logFile regex deadline offset [] = None"
| "waitForLogPattern_loop logFile regex deadline offset ((now, rd) # rest) =
     (if now < deadline then
        (case rd logFile of
           Some text \<Rightarrow>
             (let slice = drop offset text in
              if regex slice then Some True
              else waitForLogPattern_loop logFile regex deadline (length text) rest)
         | None \<Rightarrow> waitForLogPattern_loop logFile regex deadline offset rest)
      else Some False)"

definition waitForLogPattern ::
  "string \<Rightarrow> (string \<Rightarrow> bool) \<Rightarrow> int \<Rightarrow> int \<Rightarrow> log_poll list \<Rightarrow> bool option" where
  "waitForLogPattern logFile regex timeoutMs t0 polls =
     waitForLogPattern_loop logFile regex (t0 + timeoutMs) 0 polls"

definition log_in_budget :: "int \<Rightarrow> log_poll list \<Rightarrow> log_poll list" where
  "log_in_budget deadline polls = takeWhile (\<lambda>p. fst p < deadline) polls"

text \<open>
  The slices of the file a run of polls hands to the regular expression when none of them
  matches: a successful read is cut at the length of the read before it.
\<close>

fun log_slices :: "string \<Rightarrow> nat \<Rightarrow> log_poll list \<Rightarrow> string list" where
  "log_slices logFile offset [] = []"
| "log_slices logFile offset ((now, rd) # rest) =
     (case rd logFile of
        Some text \<Rightarrow> drop offset text # log_slices logFile (length text) rest
      | None \<Rightarrow> log_slices logFile offset rest)"

section \<open>The path functions of the runtime, POSIX flavour\<close>

text \<open>
  The resolvers call \<^verbatim>\<open>join\<close>, \<^verbatim>\<open>dirname\<close> and \<^verbatim>\<open>isAbsolute\<close> of the runtime's path module,
  the supervisor \<^verbatim>\<open>isAbsolute\<close>.
  They are modelled for a POSIX platform (\<^verbatim>\<open>isWin\<close> is false and the separator is the
  slash), following the algorithm of the runtime: \<^verbatim>\<open>join\<close> glues the non-empty arguments
  with a slash and normalises; normalising drops empty and \<open>.\<close> segments and lets a
  \<open>..\<close> segment remove the segment before it.
\<close>

definition isAbsolute :: "string \<Rightarrow> bool" where
  "isAbsolute path \<longleftrightarrow> path \<noteq> [] \<and> hd path = CHR ''/''"

fun split_slash :: "string \<Rightarrow> string \<Rightarrow> string list" where
  "split_slash cur [] = [rev cur]"
| "split_slash cur (c # cs) =
     (if c = CHR ''/'' then rev cur # split_slash [] cs else split_slash (c # cur) cs)"

fun join_slash :: "string list \<Rightarrow> string" where
  "join_slash [] = []"
| "join_slash [a] = a"
| "join_slash (a # b # rest) = a @ CHR ''/'' # join_slash (b # rest)"

text \<open>\<open>normalizeString\<close>: \<open>acc\<close> is the result so far, last segment first.\<close>

fun normalizeString :: "bool \<Rightarrow> string list \<Rightarrow> string list \<Rightarrow> string list" where
  "normalizeString allowAboveRoot acc [] = rev acc"
| "normalizeString allowAboveRoot acc (seg # segs) =
     (if seg = [] \<or> seg = ''.'' then normalizeString allowAboveRoot acc segs
      else if seg = ''..'' then
        (if acc \<noteq> [] \<and> hd acc \<noteq> ''..'' then normalizeString allowAboveRoot (tl acc) segs
         else if allowAboveRoot then normalizeString allowAboveRoot (''..'' # acc) segs
         else normalizeString allowAboveRoot acc segs)
      else normalizeString allowAboveRoot (seg # acc) segs)"

definition normalize :: "string \<Rightarrow> string" where
  "normalize path =
     (if path = [] then ''.''
      else
        (let isAbs = (hd path = CHR ''/'');
             trailingSeparator = (last path = CHR ''/'');
             body = join_slash (normalizeString (\<not> isAbs) [] (split_slash [] path))
         in if body = [] then (if isAbs then ''/'' else if trailingSeparator then ''./'' else ''.'')
            else (if isAbs then ''/'' else []) @ body @ (if trailingSeparator then ''/'' else [])))"

definition join :: "string list \<Rightarrow> string" where
  "join parts =
     (let joined = filter (\<lambda>a. a \<noteq> []) parts
      in if joined = [] then ''.'' else normalize (join_slash joined))"

text \<open>
  \<^verbatim>\<open>dirname\<close>: scanning from the end down to index 1, skip the trailing slashes and the
  last name; the slash found next is where the result ends.
\<close>

definition dirname :: "string \<Rightarrow> string" where
  "dirname path =
     (if path = [] then ''.''
      else
        (let hasRoot = (hd path = CHR ''/'');
             scan = dropWhile (\<lambda>c. c \<noteq> CHR ''/'')
                      (dropWhile (\<lambda>c. c = CHR ''/'') (rev (tl path)));
             end = length scan
         in if scan = [] then (if hasRoot then ''/'' else ''.'')
            else if hasRoot \<and> end = 1 then ''//''
            else take end path))"

text \<open>\<^verbatim>\<open>String.prototype.endsWith\<close>.\<close>

definition endsWith :: "string \<Rightarrow> string \<Rightarrow> bool" where
  "endsWith s sub \<longleftrightarrow> suffix sub s"

section \<open>Process supervisor (modules/core/proc/process-manager.mjs)\<close>

subsection \<open>Numbers read from and written to a PID-file\<close>

text \<open>
  Characters are code units below 256. \<^verbatim>\<open>String.prototype.trim\<close> and the leading
  white space \<^verbatim>\<open>parseInt\<close> skips: tab, line feed, vertical tab, form feed, carriage
  return, space, no-break space.
\<close>

definition js_whitespace :: "char \<Rightarrow> bool" where
  "js_whitespace c \<longleftrightarrow>
     c \<in> {CHR 0x09, CHR 0x0A, CHR 0x0B, CHR 0x0C, CHR 0x0D, CHR 0x20, CHR 0xA0}"

definition trim :: "string \<Rightarrow> string" where
  "trim s = rev (dropWhile js_whitespace (rev (dropWhile js_whitespace s)))"

text \<open>
  A JavaScript number as far as the PID logic looks at it. \<open>Num n\<close> stands for the double
  nearest to the integer \<open>n\<close> (the integer itself below \<open>2 ^ 53\<close>); a decimal numeral of
  magnitude \<open>2 ^ 1024 - 2 ^ 970\<close> or more rounds to an infinity.
\<close>

datatype js_number = NaN | Num int | PosInfinity | NegInfinity

definition is_digit :: "char \<Rightarrow> bool" where
  "is_digit c \<longleftrightarrow> c \<in> set ''0123456789''"

definition digit_val :: "char \<Rightarrow> int" where
  "digit_val c = int (of_char c) - 48"

definition number_of_int :: "int \<Rightarrow> js_number" where
  "number_of_int n =
     (if n \<ge> 2 ^ 1024 - 2 ^ 970 then PosInfinity
      else if n \<le> - (2 ^ 1024 - 2 ^ 970) then NegInfinity
      else Num n)"

text \<open>
  \<^verbatim>\<open>Number.parseInt(s, 10)\<close>: skip white space, take an optional sign, then the longest
  run of decimal digits; no digit gives NaN.
\<close>

definition parseInt :: "string \<Rightarrow> js_number" where
  "parseInt s =
     (let s1 = dropWhile js_whitespace s;
          neg = (s1 \<noteq> [] \<and> hd s1 = CHR ''-'');
          s2 = (if s1 \<noteq> [] \<and> (hd s1 = CHR ''-'' \<or> hd s1 = CHR ''+'') then tl s1 else s1);
          z = takeWhile is_digit s2;
          mathInt = foldl (\<lambda>acc c. 10 * acc + digit_val c) 0 z
      in if z = [] then NaN
         else number_of_int (if neg then - mathInt else mathInt))"

text \<open>\<^verbatim>\<open>Number.isFinite\<close> and the comparison \<^verbatim>\<open>x > 1\<close> (false for NaN).\<close>

definition isFinite :: "js_number \<Rightarrow> bool" where
  "isFinite x = (case x of Num n \<Rightarrow> True | _ \<Rightarrow> False)"

definition gt_one :: "js_number \<Rightarrow> bool" where
  "gt_one x = (case x of Num n \<Rightarrow> n > 1 | PosInfinity \<Rightarrow> True | _ \<Rightarrow> False)"

definition le_one :: "js_number \<Rightarrow> bool" where
  "le_one x = (case x of Num n \<Rightarrow> n \<le> 1 | NegInfinity \<Rightarrow> True | _ \<Rightarrow> False)"

definition int_of_number :: "js_number \<Rightarrow> int" where
  "int_of_number x = (case x of Num n \<Rightarrow> n | _ \<Rightarrow> 0)"

text \<open>The decimal text of an integer, as the template literal \<^verbatim>\<open>`${proc.pid}\n`\<close> writes it.\<close>

function nat_digits :: "nat \<Rightarrow> string" where
  "nat_digits n =
     (if n < 10 then [''0123456789'' ! n]
      else nat_digits (n div 10) @ [''0123456789'' ! (n mod 10)])"
  by pat_completeness auto
termination
  by (relation "measure id") auto

declare nat_digits.simps [simp del]

definition string_of_int :: "int \<Rightarrow> string" where
  "string_of_int i = (if i < 0 then CHR ''-'' # nat_digits (nat (- i)) else nat_digits (nat i))"

subsection \<open>The world the supervisor acts on\<close>

datatype signal = SIGTERM | SIGKILL

text \<open>
  What the supervisor does to the outside, in order. \<open>Signal target sig\<close> is the call
  \<^verbatim>\<open>process.kill(target, sig)\<close>, whether or not it throws; \<open>Taskkill pid tree force\<close> is
  \<^verbatim>\<open>spawnSync("taskkill", ["/PID", pid, "/T"?, "/F"?])\<close>.
\<close>

datatype event =
    Signal int signal
  | Taskkill int bool bool
  | Sleep int
  | EnsureFileDir string
  | RemoveFile string
  | WriteFile string string
  | OpenAppend string
  | Spawn string "string list"
  | ConsoleLog
  | ConsoleWarn

text \<open>
  The world holds the text of each file that exists and the trace of what was done.
  File-system calls are taken to succeed, except reading a file that does not exist.
\<close>

record world =
  files :: "string \<Rightarrow> string option"
  trace :: "event list"

datatype error = SysError string | Error string

definition emit :: "event \<Rightarrow> world \<Rightarrow> world" where
  "emit e w = w\<lparr>trace := trace w @ [e]\<rparr>"

definition pathExists :: "string \<Rightarrow> world \<Rightarrow> bool" where
  "pathExists p w \<longleftrightarrow> files w p \<noteq> None"

definition readFile :: "string \<Rightarrow> world \<Rightarrow> error + string" where
  "readFile p w = (case files w p of None \<Rightarrow> Inl (SysError ''ENOENT'') | Some raw \<Rightarrow> Inr raw)"

definition rm :: "string \<Rightarrow> world \<Rightarrow> world" where
  "rm p w = emit (RemoveFile p) (w\<lparr>files := (files w)(p := None)\<rparr>)"

definition writeFile :: "string \<Rightarrow> string \<Rightarrow> world \<Rightarrow> world" where
  "writeFile p body w = emit (WriteFile p body) (w\<lparr>files := (files w)(p \<mapsto> body)\<rparr>)"

definition ensureFileDir :: "string \<Rightarrow> world \<Rightarrow> world" where
  "ensureFileDir filePath w = emit (EnsureFileDir filePath) w"

subsection \<open>Termination of a process tree\<close>

text \<open>
  The operating system's answers: \<open>kill_ok target sig\<close> tells whether
  \<^verbatim>\<open>process.kill(target, sig)\<close> returns (it throws when the target is gone);
  \<open>taskkill_ok force\<close> whether \<^verbatim>\<open>spawnSync("taskkill", ...)\<close> returns.
\<close>

record os_kill =
  kill_ok :: "int \<Rightarrow> signal \<Rightarrow> bool"
  taskkill_ok :: "bool \<Rightarrow> bool"

definition process_kill :: "os_kill \<Rightarrow> int \<Rightarrow> signal \<Rightarrow> world \<Rightarrow> (error + unit) \<times> world" where
  "process_kill os target sig w =
     (if kill_ok os target sig then Inr () else Inl (SysError ''ESRCH''), emit (Signal target sig) w)"

definition taskkill :: "os_kill \<Rightarrow> int \<Rightarrow> bool \<Rightarrow> bool \<Rightarrow> world \<Rightarrow> (error + unit) \<times> world" where
  "taskkill os pid tree force w =
     (if taskkill_ok os force then Inr () else Inl (SysError ''ENOENT''), emit (Taskkill pid tree force) w)"

text \<open>\<^verbatim>\<open>try { ... } catch { }\<close>: whatever the block throws is dropped.\<close>

definition try_catch_ignore :: "(world \<Rightarrow> (error + unit) \<times> world) \<Rightarrow> world \<Rightarrow> (error + unit) \<times> world" where
  "try_catch_ignore block w = (case block w of (r, w') \<Rightarrow> (Inr (), w'))"

text \<open>Sequencing: a thrown error ends the function, as an uncaught exception does.\<close>

definition and_then ::
  "(world \<Rightarrow> (error + unit) \<times> world) \<Rightarrow> (world \<Rightarrow> (error + 'a) \<times> world) \<Rightarrow> world \<Rightarrow> (error + 'a) \<times> world" where
  "and_then first second w =
     (case first w of (Inl e, w') \<Rightarrow> (Inl e, w') | (Inr u, w') \<Rightarrow> second w')"

definition sleep :: "int \<Rightarrow> world \<Rightarrow> (error + unit) \<times> world" where
  "sleep ms w = (Inr (), emit (Sleep ms) w)"

definition skip :: "world \<Rightarrow> (error + unit) \<times> world" where
  "skip w = (Inr (), w)"

text \<open>\<^verbatim>\<open>killProcessTree(pid, { gentleMs, killGroup })\<close>.\<close>

definition killProcessTree ::
  "bool \<Rightarrow> os_kill \<Rightarrow> int \<Rightarrow> int \<Rightarrow> bool \<Rightarrow> world \<Rightarrow> (error + unit) \<times> world" where
  "killProcessTree isWin os pid gentleMs killGroup =
     (if isWin then
        and_then (try_catch_ignore (taskkill os pid killGroup False))
       (and_then (sleep gentleMs)
       (and_then (try_catch_ignore (taskkill os pid killGroup True))
        skip))
      else
        and_then (try_catch_ignore (if killGroup then process_kill os (- pid) SIGTERM else skip))
       (and_then (try_catch_ignore (process_kill os pid SIGTERM))
       (and_then (sleep gentleMs)
       (and_then (try_catch_ignore (if killGroup then process_kill os (- pid) SIGKILL else skip))
       (and_then (try_catch_ignore (process_kill os pid SIGKILL))
        skip)))))"

subsection \<open>Stopping a daemon by its PID-file\<close>

record stop_result =
  stopped :: bool
  stopped_pid :: "int option"
  reason :: "string option"
  error_message :: "string option"

text \<open>The \<^verbatim>\<open>catch (e)\<close> block of \<^verbatim>\<open>stopByPidFile\<close>: only a system error has a \<^verbatim>\<open>code\<close>.\<close>

definition error_code :: "error \<Rightarrow> string option" where
  "error_code e = (case e of SysError c \<Rightarrow> Some c | Error m \<Rightarrow> None)"

definition error_msg :: "error \<Rightarrow> string" where
  "error_msg e = (case e of SysError c \<Rightarrow> c | Error m \<Rightarrow> m)"

definition stop_catch :: "error \<Rightarrow> stop_result" where
  "stop_catch e =
     (if error_code e = Some ''ENOENT''
      then \<lparr>stopped = False, stopped_pid = None, reason = Some ''no-pidfile'', error_message = None\<rparr>
      else \<lparr>stopped = False, stopped_pid = None, reason = None, error_message = Some (error_msg e)\<rparr>)"

text \<open>\<^verbatim>\<open>ProcessManager.stopByPidFile(pidFile, { gentleMs, killGroup })\<close>.\<close>

definition stopByPidFile ::
  "bool \<Rightarrow> os_kill \<Rightarrow> string \<Rightarrow> int \<Rightarrow> bool \<Rightarrow> world \<Rightarrow> stop_result \<times> world" where
  "stopByPidFile isWin os pidFile gentleMs killGroup w =
     (case readFile pidFile w of
        Inl e \<Rightarrow> (stop_catch e, w)
      | Inr raw \<Rightarrow>
          (let pid = parseInt (trim raw) in
           if \<not> isFinite pid \<or> le_one pid
           then (stop_catch (Error (''invalid pid in '' @ pidFile)), w)
           else
             (case killProcessTree isWin os (int_of_number pid) gentleMs (\<not> isWin \<and> killGroup) w of
                (Inl e, w') \<Rightarrow> (stop_catch e, w')
              | (Inr u, w') \<Rightarrow>
                  (\<lparr>stopped = True, stopped_pid = Some (int_of_number pid), reason = None,
                    error_message = None\<rparr>,
                   rm pidFile w'))))"

subsection \<open>Starting a daemon\<close>

datatype restart_policy = Never | OnFailure

datatype start_status = Started | AlreadyRunning | Failed

text \<open>
  The readiness argument: \<open>rd_http\<close> and \<open>rd_port\<close> hold the targets (a single target is
  a list of one, an absent property the empty list), \<open>rd_log\<close> the file and the regular
  expression when \<^verbatim>\<open>readiness.log\<close> is present, \<open>rd_custom\<close> tells whether
  \<^verbatim>\<open>readiness.custom\<close> is a function.
\<close>

record readiness_spec =
  rd_http :: "string list"
  rd_port :: "(string \<times> int) list"
  rd_log :: "(string \<times> string) option"
  rd_custom :: bool

record start_opts =
  opt_name :: string
  opt_binary :: string
  opt_args :: "string list"
  opt_env :: "(string \<times> string) list"
  opt_cwd :: string
  opt_pidFile :: string
  opt_logFile :: string
  opt_readiness :: readiness_spec
  opt_minUptimeMs :: int
  opt_restartPolicy :: restart_policy

record start_result =
  status :: start_status
  started_pid :: int
  alive :: bool
  ready :: "bool option"

text \<open>
  What one invocation of \<^verbatim>\<open>startDaemon\<close> observes of the operating system, in the order
  of the source: the answer of \<^verbatim>\<open>isAlive(oldPid)\<close> at the stale-PID check, for
  \<^verbatim>\<open>resolveBinary\<close> whether a path exists and what the lookup with \<^verbatim>\<open>which\<close> (or
  \<^verbatim>\<open>where\<close>) prints, trimmed, \<^verbatim>\<open>Date.now()\<close> before the spawn, the PID of the child, the
  answer of \<^verbatim>\<open>isAlive(proc.pid)\<close> after the start-up sleep, what each readiness probe
  resolves to (the custom probe may reject), and \<^verbatim>\<open>isAlive(proc.pid)\<close> and
  \<^verbatim>\<open>Date.now()\<close> once readiness has failed.
\<close>

record attempt =
  old_alive :: "int \<Rightarrow> bool"
  binary_exists :: "string \<Rightarrow> bool"
  path_lookup :: "string \<Rightarrow> string"
  startedAt :: int
  child_pid :: int
  alive_at_healthcheck :: bool
  http_probe :: "string \<Rightarrow> bool"
  port_probe :: "string \<times> int \<Rightarrow> bool"
  log_probe :: "string \<times> string \<Rightarrow> bool"
  custom_probe :: "error + bool"
  alive_after_readiness :: bool
  now_after_readiness :: int

text \<open>\<^verbatim>\<open>resolveBinary(binaryOrPath)\<close>.\<close>

definition resolveBinary :: "attempt \<Rightarrow> string \<Rightarrow> string option" where
  "resolveBinary a binaryOrPath =
     (if binaryOrPath = [] then None
      else if isAbsolute binaryOrPath \<and> binary_exists a binaryOrPath then Some binaryOrPath
      else (let path = path_lookup a binaryOrPath in if path = [] then None else Some path))"

definition STARTUP_HEALTHCHECK_DELAY_MS :: int where
  "STARTUP_HEALTHCHECK_DELAY_MS = 50"

text \<open>\<^verbatim>\<open>Promise.all\<close> over the probes, then \<^verbatim>\<open>results.every(Boolean)\<close>.\<close>

fun promise_all :: "(error + bool) list \<Rightarrow> error + bool" where
  "promise_all [] = Inr True"
| "promise_all (Inl e # ts) = Inl e"
| "promise_all (Inr b # ts) = (case promise_all ts of Inl e \<Rightarrow> Inl e | Inr bs \<Rightarrow> Inr (b \<and> bs))"

text \<open>\<^verbatim>\<open>ProcessManager._waitReadiness(readiness)\<close>.\<close>

definition waitReadiness :: "attempt \<Rightarrow> readiness_spec \<Rightarrow> error + bool" where
  "waitReadiness a rd =
     (let tasks =
            map (\<lambda>u. Inr (http_probe a u)) (rd_http rd) @
            map (\<lambda>p. Inr (port_probe a p)) (rd_port rd) @
            (case rd_log rd of
               Some (file, regex) \<Rightarrow>
                 if file \<noteq> [] \<and> regex \<noteq> [] then [Inr (log_probe a (file, regex))] else []
             | None \<Rightarrow> []) @
            (if rd_custom rd then [custom_probe a] else [])
      in if tasks = [] then Inr True else promise_all tasks)"

text \<open>
  The stale-PID handling of \<^verbatim>\<open>startDaemon\<close> (the block under the comment
  \<^verbatim>\<open>// Stale PID handling\<close>): \<open>Some r\<close> is the early return.
\<close>

definition stale_pid_handling :: "attempt \<Rightarrow> string \<Rightarrow> world \<Rightarrow> start_result option \<times> world" where
  "stale_pid_handling a pidFile w =
     (if pathExists pidFile w then
        (let raw = trim (case files w pidFile of Some body \<Rightarrow> body | None \<Rightarrow> []);
             oldPid = parseInt raw
         in if isFinite oldPid \<and> gt_one oldPid \<and> old_alive a (int_of_number oldPid)
            then (Some \<lparr>status = AlreadyRunning, started_pid = int_of_number oldPid,
                        alive = True, ready = Some True\<rparr>,
                  emit ConsoleLog w)
            else (None, rm pidFile w))
      else (None, w))"

text \<open>
  \<^verbatim>\<open>ProcessManager.startDaemon(opts)\<close>. \<open>obs k\<close> is what the \<open>k\<close>-th invocation observes;
  the retry is the next invocation.
\<close>

function startDaemon ::
  "(nat \<Rightarrow> attempt) \<Rightarrow> nat \<Rightarrow> start_opts \<Rightarrow> world \<Rightarrow> (error + start_result) \<times> world" where
  "startDaemon obs k opts w =
     (if opt_pidFile opts = [] \<or> opt_logFile opts = []
      then (Inl (Error ''startDaemon requires pidFile and logFile''), w)
      else
        (let a = obs k;
             w1 = ensureFileDir (opt_logFile opts) (ensureFileDir (opt_pidFile opts) w)
         in case stale_pid_handling a (opt_pidFile opts) w1 of
              (Some r, w2) \<Rightarrow> (Inr r, w2)
            | (None, w2) \<Rightarrow>
                (case resolveBinary a (opt_binary opts) of
                   None \<Rightarrow> (Inl (Error (''Binary not found: '' @ opt_binary opts)), w2)
                 | Some binPath \<Rightarrow>
                     (let w3 = emit (OpenAppend (opt_logFile opts)) w2;
                          w4 = emit (Spawn binPath (opt_args opts)) w3;
                          w5 = writeFile (opt_pidFile opts)
                                 (string_of_int (child_pid a) @ [CHR 0x0A]) w4;
                          w6 = emit (Sleep STARTUP_HEALTHCHECK_DELAY_MS) w5
                      in if \<not> alive_at_healthcheck a
                         then (Inr \<lparr>status = Failed, started_pid = child_pid a,
                                     alive = False, ready = None\<rparr>,
                               rm (opt_pidFile opts) w6)
                         else
                           (case waitReadiness a (opt_readiness opts) of
                              Inl e \<Rightarrow> (Inl e, w6)
                            | Inr ok \<Rightarrow>
                                if \<not> ok then
                                  (if opt_restartPolicy opts = OnFailure \<and>
                                      (\<not> alive_after_readiness a \<and>
                                       now_after_readiness a - startedAt a < opt_minUptimeMs opts)
                                   then startDaemon obs (Suc k)
                                          (opts\<lparr>opt_restartPolicy := Never\<rparr>) (emit ConsoleWarn w6)
                                   else (Inr \<lparr>status = Started, started_pid = child_pid a,
                                               alive = True, ready = Some False\<rparr>, w6))
                                else (Inr \<lparr>status = Started, started_pid = child_pid a,
                                            alive = True, ready = Some True\<rparr>, w6))))))"
  by pat_completeness auto
termination
  by (relation "measure (\<lambda>(obs, k, opts, w). if opt_restartPolicy opts = OnFailure then 1 else 0)") auto

declare startDaemon.simps [simp del]

subsection \<open>Notions used to state the supervisor's properties\<close>

text \<open>
  The PID-file exists and the stale-PID check of \<^verbatim>\<open>startDaemon\<close> accepts what it records:
  the text parses to a finite number greater than 1 and \<^verbatim>\<open>isAlive\<close> answers true.
\<close>

definition live_pid_recorded :: "attempt \<Rightarrow> string \<Rightarrow> world \<Rightarrow> bool" where
  "live_pid_recorded a pidFile w =
     (case files w pidFile of
        None \<Rightarrow> False
      | Some body \<Rightarrow>
          isFinite (parseInt (trim body)) \<and> gt_one (parseInt (trim body)) \<and>
          old_alive a (int_of_number (parseInt (trim body))))"

definition recorded_pid :: "string \<Rightarrow> world \<Rightarrow> int" where
  "recorded_pid pidFile w =
     (case files w pidFile of None \<Rightarrow> 0 | Some body \<Rightarrow> int_of_number (parseInt (trim body)))"

text \<open>The world once the stale-PID handling has let the call through.\<close>

definition reclaimed_world :: "start_opts \<Rightarrow> world \<Rightarrow> world" where
  "reclaimed_world opts w =
     w\<lparr>files := (files w)(opt_pidFile opts := None),
       trace := trace w @ [EnsureFileDir (opt_pidFile opts), EnsureFileDir (opt_logFile opts)] @
                (if files w (opt_pidFile opts) \<noteq> None then [RemoveFile (opt_pidFile opts)] else [])\<rparr>"

text \<open>The world once the child is spawned, its PID written and the start-up sleep over.\<close>

definition spawned_world :: "attempt \<Rightarrow> start_opts \<Rightarrow> string \<Rightarrow> world \<Rightarrow> world" where
  "spawned_world a opts binPath w =
     w\<lparr>files := (files w)(opt_pidFile opts \<mapsto> string_of_int (child_pid a) @ [CHR 0x0A]),
       trace := trace (reclaimed_world opts w) @
                [OpenAppend (opt_logFile opts), Spawn binPath (opt_args opts),
                 WriteFile (opt_pidFile opts) (string_of_int (child_pid a) @ [CHR 0x0A]),
                 Sleep STARTUP_HEALTHCHECK_DELAY_MS]\<rparr>"

definition is_spawn :: "event \<Rightarrow> bool" where
  "is_spawn e = (case e of Spawn b as \<Rightarrow> True | _ \<Rightarrow> False)"

definition spawn_count :: "world \<Rightarrow> nat" where
  "spawn_count w = length (filter is_spawn (trace w))"

text \<open>Concrete inputs for the worked instances below.\<close>

definition ex_opts :: "restart_policy \<Rightarrow> start_opts" where
  "ex_opts policy =
     \<lparr>opt_name = ''caddy'', opt_binary = ''caddy'', opt_args = [''run''], opt_env = [],
      opt_cwd = ''/ws'', opt_pidFile = ''/ws/caddy.pid'', opt_logFile = ''/ws/logs/caddy.log'',
      opt_readiness = \<lparr>rd_http = [''http://127.0.0.1:2019/config''], rd_port = [],
                        rd_log = None, rd_custom = False\<rparr>,
      opt_minUptimeMs = 1200, opt_restartPolicy = policy\<rparr>"

definition ex_attempt :: "(int \<Rightarrow> bool) \<Rightarrow> int \<Rightarrow> bool \<Rightarrow> bool \<Rightarrow> bool \<Rightarrow> attempt" where
  "ex_attempt oldAlive child aliveAtCheck probesOk aliveLater =
     \<lparr>old_alive = oldAlive, binary_exists = (\<lambda>b. False),
      path_lookup = (\<lambda>b. ''/usr/bin/'' @ b), startedAt = 1000,
      child_pid = child, alive_at_healthcheck = aliveAtCheck, http_probe = (\<lambda>u. probesOk),
      port_probe = (\<lambda>p. probesOk), log_probe = (\<lambda>l. probesOk), custom_probe = Inr probesOk,
      alive_after_readiness = aliveLater, now_after_readiness = 1300\<rparr>"

definition ex_world :: "string option \<Rightarrow> world" where
  "ex_world body = \<lparr>files = (\<lambda>p. if p = ''/ws/caddy.pid'' then body else None), trace = []\<rparr>"

definition ex_os :: os_kill where
  "ex_os = \<lparr>kill_ok = (\<lambda>target sg. False), taskkill_ok = (\<lambda>force. False)\<rparr>"

section \<open>Paths and environment resolver (modules/core/helpers/common.mjs)\<close>

subsection \<open>Environment, file system and module state\<close>

text \<open>
  What a resolver call reads and does not change: the environment variables
  (\<^verbatim>\<open>process.env\<close>), \<^verbatim>\<open>process.cwd()\<close>, \<^verbatim>\<open>realpathSync\<close>, \<^verbatim>\<open>os.homedir()\<close>,
  \<^verbatim>\<open>os.platform()\<close>, and the \<^verbatim>\<open>preferences.bin_location\<close> entry the global configuration
  file parses to.
\<close>

record path_env =
  env_var :: "string \<Rightarrow> string option"
  cwd :: string
  realpathSync :: "string \<Rightarrow> string"
  homedir :: string
  platform :: string
  config_bin_location :: "string option"

text \<open>
  What a resolver call may change: the paths that exist, the module variable
  \<^verbatim>\<open>pathMisconfigurationWarned\<close>, and the warnings written with \<^verbatim>\<open>console.error\<close> (each
  recorded by the line of the message that shows the path). A path exists when the set holds
  it as it is written; creating a directory is taken to succeed.
\<close>

record path_state =
  fs :: "string set"
  pathMisconfigurationWarned :: bool
  stderr :: "string list"

definition existsSync :: "path_state \<Rightarrow> string \<Rightarrow> bool" where
  "existsSync st p \<longleftrightarrow> p \<in> fs st"

text \<open>
  \<^verbatim>\<open>mkdirSync(p, { recursive: true })\<close>: the directory and the directories above it,
  up to the one that is its own \<^verbatim>\<open>dirname\<close>.
\<close>

function ancestors :: "string \<Rightarrow> string list" where
  "ancestors p = (if dirname p = p then [p] else p # ancestors (dirname p))"
  by pat_completeness auto
termination
proof (relation "measure (\<lambda>p. if p = [] then 4 else 2 * length p + (if p = ''.'' then 0 else 1))")
  show "wf (measure (\<lambda>p. if p = [] then 4 else 2 * length p + (if p = ''.'' then 0 else 1)))"
    by simp
next
  fix p :: string
  assume ne: "dirname p \<noteq> p"
  define m :: "string \<Rightarrow> nat"
    where "m = (\<lambda>p. if p = [] then 4 else 2 * length p + (if p = ''.'' then 0 else 1))"
  define sc where
    "sc = dropWhile (\<lambda>c. c \<noteq> CHR ''/'') (dropWhile (\<lambda>c. c = CHR ''/'') (rev (tl p)))"
  have d: "dirname p =
     (if p = [] then ''.''
      else if sc = [] then (if hd p = CHR ''/'' then ''/'' else ''.'')
      else if hd p = CHR ''/'' \<and> length sc = 1 then ''//''
      else take (length sc) p)"
    unfolding dirname_def sc_def Let_def by (rule refl)
  have gen: "length (dropWhile Q (dropWhile P xs)) + 1 \<le> length xs"
    if n: "dropWhile Q (dropWhile P xs) \<noteq> []" and q: "\<And>x. \<not> P x \<Longrightarrow> Q x"
    for P Q :: "char \<Rightarrow> bool" and xs :: string
  proof (cases "dropWhile P xs")
    case Nil
    show ?thesis using n unfolding Nil by simp
  next
    case (Cons y ys)
    have "\<not> P y" using hd_dropWhile [of P xs] Cons by simp
    then have "Q y" by (rule q)
    then have "dropWhile Q (dropWhile P xs) = dropWhile Q ys" using Cons by simp
    moreover have "length (dropWhile Q ys) \<le> length ys" by (rule length_dropWhile_le)
    moreover have "length (dropWhile P xs) \<le> length xs" by (rule length_dropWhile_le)
    ultimately show ?thesis using Cons by simp
  qed
  have short: "length sc + 2 \<le> length p" if s: "sc \<noteq> []"
  proof (cases p)
    case Nil
    then show ?thesis using s by (simp add: sc_def)
  next
    case (Cons c cs)
    have "length sc + 1 \<le> length (rev (tl p))"
      using s unfolding sc_def by (rule gen) simp
    then show ?thesis using Cons by simp
  qed
  have "m (dirname p) < m p"
  proof (cases "p = []")
    case True
    have e: "dirname p = ''.''" unfolding d using True by simp
    show ?thesis unfolding e using True by (simp add: m_def)
  next
    case False
    then have lp: "length p \<ge> 1" by (cases p) simp_all
    show ?thesis
    proof (cases "sc = []")
      case True
      show ?thesis
      proof (cases "hd p = CHR ''/''")
        case h: True
        have e: "dirname p = ''/''" using False True h by (simp add: d)
        then have "p \<noteq> ''/''" using ne by simp
        then have "length p \<ge> 2" using False h by (cases p; cases "tl p") auto
        then show ?thesis using False by (simp add: e m_def)
      next
        case h: False
        have e: "dirname p = ''.''" using False True h by (simp add: d)
        then have "p \<noteq> ''.''" using ne by simp
        then show ?thesis using False lp by (simp add: e m_def)
      qed
    next
      case s: False
      have l: "length sc + 2 \<le> length p" using short [OF s] .
      have pd: "p \<noteq> ''.''" using l by auto
      show ?thesis
      proof (cases "hd p = CHR ''/'' \<and> length sc = 1")
        case True
        then have e: "dirname p = ''//''" using False s by (simp add: d)
        show ?thesis using l False pd True by (simp add: e m_def)
      next
        case F: False
        have e: "dirname p = take (length sc) p"
          using False s F by (auto simp: d)
        have tl: "length (take (length sc) p) = length sc" using l by simp
        have tn: "take (length sc) p \<noteq> []" using s False by (cases p) auto
        have mp: "m p = 2 * length p + 1" using False pd by (simp add: m_def)
        have "m (take (length sc) p) \<le> 2 * length sc + 1" using tn tl by (simp add: m_def)
        then show ?thesis using l mp unfolding e by linarith
      qed
    qed
  qed
  then show "(dirname p, p) \<in> measure (\<lambda>p. if p = [] then 4 else 2 * length p + (if p = ''.'' then 0 else 1))"
    by (simp add: m_def)
qed

declare ancestors.simps [simp del]

definition mkdirSync :: "string \<Rightarrow> path_state \<Rightarrow> path_state" where
  "mkdirSync p st = st\<lparr>fs := fs st \<union> set (ancestors p)\<rparr>"

text \<open>\<^verbatim>\<open>a || b\<close> on two environment variables: the first when it is set and not empty.\<close>

definition env_or :: "path_env \<Rightarrow> string \<Rightarrow> string \<Rightarrow> string option" where
  "env_or pe a b =
     (case env_var pe a of
        Some v \<Rightarrow> if v \<noteq> [] then Some v else env_var pe b
      | None \<Rightarrow> env_var pe b)"

text \<open>\<^verbatim>\<open>v && v.trim()\<close> as a condition.\<close>

definition set_and_not_blank :: "string option \<Rightarrow> bool" where
  "set_and_not_blank v = (case v of Some s \<Rightarrow> s \<noteq> [] \<and> trim s \<noteq> [] | None \<Rightarrow> False)"

definition value_of :: "string option \<Rightarrow> string" where
  "value_of v = (case v of Some s \<Rightarrow> s | None \<Rightarrow> [])"

subsection \<open>The resolvers\<close>

text \<open>The test \<open>we are inside .asd\<close> of \<^verbatim>\<open>resolveProjectRoot\<close> and what it returns then.\<close>

definition has_asd_marker :: "path_state \<Rightarrow> string \<Rightarrow> bool" where
  "has_asd_marker st dir \<longleftrightarrow>
     existsSync st (join [dir, ''main.just'']) \<or>
     existsSync st (join [dir, ''cli.ts'']) \<or>
     existsSync st (join [dir, ''bin'', ''asd.ts''])"

definition inside_asd :: "string \<Rightarrow> bool" where
  "inside_asd dir \<longleftrightarrow> endsWith dir ''/.asd'' \<or> endsWith dir (CHR 0x5C # ''.asd'')"

definition parent_or_self :: "path_env \<Rightarrow> path_state \<Rightarrow> string \<Rightarrow> string" where
  "parent_or_self pe st dir =
     (let parent = dirname dir;
          parentAsdDir = join [parent, ''.asd''];
          isRealParent =
            (existsSync st parent \<and>
             (existsSync st (join [parent, ''asd.yaml'']) \<or>
              (existsSync st parentAsdDir \<and> realpathSync pe parentAsdDir \<noteq> realpathSync pe dir)))
      in if isRealParent then parent else dir)"

text \<open>The loop of \<^verbatim>\<open>resolveProjectRoot\<close>; \<open>n\<close> counts the iterations left of the 50.\<close>

fun project_root_walk :: "path_env \<Rightarrow> path_state \<Rightarrow> string \<Rightarrow> nat \<Rightarrow> string \<Rightarrow> string" where
  "project_root_walk pe st startDir 0 dir = startDir"
| "project_root_walk pe st startDir (Suc n) dir =
     (if inside_asd dir \<and> has_asd_marker st dir then parent_or_self pe st dir
      else if existsSync st (join [dir, ''.asd'']) then dir
      else
        (let up = dirname dir
         in if up = dir then startDir else project_root_walk pe st startDir n up))"

definition resolveProjectRoot :: "path_env \<Rightarrow> path_state \<Rightarrow> string \<Rightarrow> string" where
  "resolveProjectRoot pe st startDir =
     (case env_var pe ''PROJECT_DIR'' of
        Some envRoot \<Rightarrow>
          if envRoot \<noteq> [] \<and> existsSync st envRoot then
            (if inside_asd envRoot \<and> has_asd_marker st envRoot
             then parent_or_self pe st envRoot
             else envRoot)
          else project_root_walk pe st startDir 50 startDir
      | None \<Rightarrow> project_root_walk pe st startDir 50 startDir)"

definition resolveAsdDir :: "path_env \<Rightarrow> path_state \<Rightarrow> string \<Rightarrow> string" where
  "resolveAsdDir pe st startDir =
     (let envExplicit = env_or pe ''ASD_DIR_PATH'' ''ASD_DIR'';
          projectDir = value_of (env_var pe ''PROJECT_DIR'');
          root = resolveProjectRoot pe st startDir
      in if value_of envExplicit \<noteq> [] \<and> existsSync st (value_of envExplicit)
         then value_of envExplicit
         else if projectDir \<noteq> [] \<and> existsSync st (join [projectDir, ''modules'']) then projectDir
         else if projectDir \<noteq> [] \<and> existsSync st (join [projectDir, ''.asd''])
         then join [projectDir, ''.asd'']
         else if existsSync st (join [root, ''modules'']) then root
         else join [root, ''.asd''])"

text \<open>
  The regular expression \<^verbatim>\<open>/[A-Z]:\\a\\.asd\\.asd/i\<close>: a letter, a colon, a backslash, the
  letter a, a backslash, any character but a line terminator, asd, a backslash, any such
  character, asd; letters in either case.
\<close>

definition ascii_letter :: "char \<Rightarrow> bool" where
  "ascii_letter c \<longleftrightarrow>
     (65 \<le> (of_char c :: nat) \<and> (of_char c :: nat) \<le> 90) \<or>
     (97 \<le> (of_char c :: nat) \<and> (of_char c :: nat) \<le> 122)"

definition any_char :: "char \<Rightarrow> bool" where
  "any_char c \<longleftrightarrow> c \<noteq> CHR 0x0A \<and> c \<noteq> CHR 0x0D"

definition either_case :: "char \<Rightarrow> char \<Rightarrow> char \<Rightarrow> bool" where
  "either_case c lower upper \<longleftrightarrow> c = lower \<or> c = upper"

definition windows_runner_at :: "string \<Rightarrow> bool" where
  "windows_runner_at s \<longleftrightarrow>
     length s \<ge> 14 \<and>
     ascii_letter (s ! 0) \<and> s ! 1 = CHR '':'' \<and> s ! 2 = CHR 0x5C \<and>
     either_case (s ! 3) CHR ''a'' CHR ''A'' \<and> s ! 4 = CHR 0x5C \<and> any_char (s ! 5) \<and>
     either_case (s ! 6) CHR ''a'' CHR ''A'' \<and> either_case (s ! 7) CHR ''s'' CHR ''S'' \<and>
     either_case (s ! 8) CHR ''d'' CHR ''D'' \<and> s ! 9 = CHR 0x5C \<and> any_char (s ! 10) \<and>
     either_case (s ! 11) CHR ''a'' CHR ''A'' \<and> either_case (s ! 12) CHR ''s'' CHR ''S'' \<and>
     either_case (s ! 13) CHR ''d'' CHR ''D''"

fun windows_runner_regex :: "string \<Rightarrow> bool" where
  "windows_runner_regex [] = False"
| "windows_runner_regex (c # cs) = (windows_runner_at (c # cs) \<or> windows_runner_regex cs)"

definition isGitHubAsdRepo :: "string \<Rightarrow> bool" where
  "isGitHubAsdRepo dir \<longleftrightarrow>
     str_includes dir ''/work/.asd/.asd'' \<or>
     str_includes dir (CHR 0x5C # ''work'' @ CHR 0x5C # ''.asd'' @ CHR 0x5C # ''.asd'') \<or>
     windows_runner_regex dir"

definition doubled_asd :: "string \<Rightarrow> bool" where
  "doubled_asd dir \<longleftrightarrow>
     str_includes dir ''.asd/.asd'' \<or> str_includes dir (''.asd'' @ CHR 0x5C # ''.asd'')"

text \<open>The line of the warning that shows the path.\<close>

definition warning_line :: "string \<Rightarrow> string" where
  "warning_line dir = take 60 dir @ (if length dir > 60 then ''...'' else [])"

text \<open>The directory \<^verbatim>\<open>resolveWorkspaceDir\<close> settles on when no sandbox directory is set.\<close>

definition workspace_location :: "path_env \<Rightarrow> path_state \<Rightarrow> string \<Rightarrow> string" where
  "workspace_location pe st startDir =
     (let env = env_or pe ''ASD_WORKSPACE_DIR'' ''WORKSPACE_DIR'';
          projectRoot = resolveProjectRoot pe st startDir;
          asdDir = resolveAsdDir pe st startDir
      in if set_and_not_blank env then
           (let trimmed = trim (value_of env)
            in if \<not> isAbsolute trimmed then join [projectRoot, trimmed] else trimmed)
         else
           (let projectAsdDir = join [projectRoot, ''.asd''];
                hasLocalAsd = (existsSync st projectAsdDir \<and>
                               existsSync st (join [projectAsdDir, ''modules'']))
            in if hasLocalAsd then join [projectAsdDir, ''workspace'']
               else if asdDir \<noteq> projectRoot \<and> asdDir \<noteq> projectAsdDir
               then join [projectRoot, ''workspace'']
               else join [asdDir, ''workspace'']))"

definition create_subdirs :: "string \<Rightarrow> string list \<Rightarrow> path_state \<Rightarrow> path_state" where
  "create_subdirs dir subdirs st =
     fold (\<lambda>subdir s. if \<not> existsSync s (join [dir, subdir]) then mkdirSync (join [dir, subdir]) s else s)
       subdirs st"

text \<open>\<^verbatim>\<open>resolveWorkspaceDir(startDir)\<close>.\<close>

definition resolveWorkspaceDir :: "path_env \<Rightarrow> string \<Rightarrow> path_state \<Rightarrow> string \<times> path_state" where
  "resolveWorkspaceDir pe startDir st =
     (let sb = env_or pe ''SANDBOX_DIR'' ''EXECUTION_DIR''
      in if set_and_not_blank sb then
           (let dir = join [trim (value_of sb), ''.asd'', ''workspace'']
            in (dir, if \<not> existsSync st dir then mkdirSync dir st else st))
         else
           (let dir = workspace_location pe st startDir;
                st1 = (if \<not> isGitHubAsdRepo dir \<and> \<not> pathMisconfigurationWarned st \<and> doubled_asd dir
                       then st\<lparr>pathMisconfigurationWarned := True,
                               stderr := stderr st @ [warning_line dir]\<rparr>
                       else st);
                st2 = (if \<not> existsSync st1 dir
                       then create_subdirs dir [''logs'', ''network'', ''tunnels''] (mkdirSync dir st1)
                       else st1)
            in (dir, st2)))"

text \<open>\<^verbatim>\<open>getAsdHome()\<close> of global-config.mjs.\<close>

definition getAsdHome :: "path_env \<Rightarrow> string" where
  "getAsdHome pe =
     (if set_and_not_blank (env_var pe ''ASD_HOME'') then trim (value_of (env_var pe ''ASD_HOME''))
      else if platform pe = ''win32'' then
        join [if value_of (env_var pe ''LOCALAPPDATA'') \<noteq> [] then value_of (env_var pe ''LOCALAPPDATA'')
              else join [homedir pe, ''AppData'', ''Local''], ''asd'']
      else if platform pe = ''darwin'' then
        join [homedir pe, ''Library'', ''Application Support'', ''asd'']
      else
        join [if value_of (env_var pe ''XDG_DATA_HOME'') \<noteq> [] then value_of (env_var pe ''XDG_DATA_HOME'')
              else join [homedir pe, ''.local'', ''share''], ''asd''])"

definition resolveGlobalBinDir :: "path_env \<Rightarrow> string" where
  "resolveGlobalBinDir pe = join [getAsdHome pe, ''bin'']"

text \<open>
  \<^verbatim>\<open>loadGlobalConfig()\<close> as far as \<^verbatim>\<open>getBinLocation\<close> reads it: nothing when the
  configuration file does not exist.
\<close>

definition loadGlobalConfig_bin_location :: "path_env \<Rightarrow> path_state \<Rightarrow> string option" where
  "loadGlobalConfig_bin_location pe st =
     (if \<not> existsSync st (join [getAsdHome pe, ''config.yaml'']) then None
      else config_bin_location pe)"

definition getBinLocation :: "path_env \<Rightarrow> path_state \<Rightarrow> string" where
  "getBinLocation pe st =
     (let env = env_var pe ''ASD_BIN_LOCATION'';
          configValue = loadGlobalConfig_bin_location pe st
      in if env = Some ''workspace'' \<or> env = Some ''global'' then value_of env
         else if configValue = Some ''workspace'' \<or> configValue = Some ''global'' then value_of configValue
         else ''global'')"

text \<open>\<^verbatim>\<open>resolveBinDir()\<close>.\<close>

definition resolveBinDir :: "path_env \<Rightarrow> path_state \<Rightarrow> string \<times> path_state" where
  "resolveBinDir pe st =
     (let explicitDir = env_var pe ''ASD_BIN_DIR''
      in if set_and_not_blank explicitDir then (trim (value_of explicitDir), st)
         else if getBinLocation pe st = ''workspace'' then
           (case resolveWorkspaceDir pe (cwd pe) st of
              (workspace, st1) \<Rightarrow>
                (let binDir = join [workspace, ''bin'']
                 in (binDir, if \<not> existsSync st1 binDir then mkdirSync binDir st1 else st1)))
         else
           (let globalBin = resolveGlobalBinDir pe
            in (globalBin, if \<not> existsSync st globalBin then mkdirSync globalBin st else st)))"

text \<open>\<^verbatim>\<open>resolveLogPath(filename)\<close>.\<close>

definition resolveLogPath :: "path_env \<Rightarrow> string \<Rightarrow> path_state \<Rightarrow> string \<times> path_state" where
  "resolveLogPath pe filename st =
     (case resolveWorkspaceDir pe (cwd pe) st of
        (workspace, st1) \<Rightarrow>
          (let logsDir = join [workspace, ''logs'']
           in (join [logsDir, filename],
               if \<not> existsSync st1 logsDir then mkdirSync logsDir st1 else st1)))"

subsection \<open>Sequences of resolver calls in one process\<close>

text \<open>
  A process starts with the warning flag unset and nothing written. It then makes resolver
  calls, each under the environment of its moment; \<^verbatim>\<open>resolveLogPath\<close> and
  \<^verbatim>\<open>resolveBinDir\<close> reach \<^verbatim>\<open>resolveWorkspaceDir\<close> through their own calls.
\<close>

datatype resolver_call =
    ResolveWorkspaceDir path_env string
  | ResolveLogPath path_env string
  | ResolveBinDir path_env

fun run_call :: "resolver_call \<Rightarrow> path_state \<Rightarrow> path_state" where
  "run_call (ResolveWorkspaceDir pe startDir) st = snd (resolveWorkspaceDir pe startDir st)"
| "run_call (ResolveLogPath pe filename) st = snd (resolveLogPath pe filename st)"
| "run_call (ResolveBinDir pe) st = snd (resolveBinDir pe st)"

definition run_calls :: "resolver_call list \<Rightarrow> path_state \<Rightarrow> path_state" where
  "run_calls calls st = fold run_call calls st"

definition fresh_process :: "string set \<Rightarrow> path_state" where
  "fresh_process paths = \<lparr>fs = paths, pathMisconfigurationWarned = False, stderr = []\<rparr>"

text \<open>The shape \<open>D:\a\.asd\.asd\<close> with any drive letter, somewhere in the path.\<close>

definition windows_runner_shape :: "string \<Rightarrow> bool" where
  "windows_runner_shape dir \<longleftrightarrow>
     (\<exists>pre d post. ascii_letter d \<and>
        dir = pre @ d # '':'' @ CHR 0x5C # ''a'' @ CHR 0x5C # ''.asd'' @ CHR 0x5C # ''.asd'' @ post)"

definition ex_path_env :: "(string \<times> string) list \<Rightarrow> path_env" where
  "ex_path_env vars =
     \<lparr>env_var = map_of vars, cwd = ''/home/dev/app'', realpathSync = (\<lambda>p. p),
      homedir = ''/home/dev'', platform = ''linux'', config_bin_location = None\<rparr>"

text \<open>
  At most one warning has been written, and none while the flag is unset.
\<close>

definition warn_inv :: "path_state \<Rightarrow> bool" where
  "warn_inv st \<longleftrightarrow> length (stderr st) \<le> 1 \<and> (\<not> pathMisconfigurationWarned st \<longrightarrow> stderr st = [])"

text \<open>
  Every path that exists has its parent directory, as in a file system; and a path exists
  together with all the directories above it.
\<close>

definition parents_exist :: "path_state \<Rightarrow> bool" where
  "parents_exist st \<longleftrightarrow> (\<forall>p \<in> fs st. dirname p \<in> fs st)"

definition tree_exists :: "path_state \<Rightarrow> string \<Rightarrow> bool" where
  "tree_exists st p \<longleftrightarrow> list_all (existsSync st) (ancestors p)"

text \<open>The state after the misconfiguration check of \<^verbatim>\<open>resolveWorkspaceDir\<close>.\<close>

definition flagged :: "path_env \<Rightarrow> string \<Rightarrow> path_state \<Rightarrow> path_state" where
  "flagged pe startDir st =
     (if \<not> isGitHubAsdRepo (workspace_location pe st startDir) \<and> \<not> pathMisconfigurationWarned st \<and>
         doubled_asd (workspace_location pe st startDir)
      then st\<lparr>pathMisconfigurationWarned := True,
              stderr := stderr st @ [warning_line (workspace_location pe st startDir)]\<rparr>
      else st)"

section \<open>Theorems\<close>

lemma waitForHTTP_Some_True:
  "waitForHTTP url timeoutMs t0 polls = Some True \<longleftrightarrow>
     list_ex (http_ready url) (http_in_budget timeoutMs t0 polls)"
proof (induction polls)
  case Nil
  then show ?case by (simp add: http_in_budget_def)
next
  case (Cons p polls)
  obtain now fetch where p: "p = (now, fetch)" by (cases p)
  show ?case
  proof (cases "now - t0 < timeoutMs")
    case False
    then show ?thesis by (simp add: p http_in_budget_def)
  next
    case True
    have tw: "http_in_budget timeoutMs t0 ((now, fetch) # polls) =
        (now, fetch) # http_in_budget timeoutMs t0 polls"
      using True by (simp add: http_in_budget_def)
    show ?thesis
    proof (cases "fetch url")
      case NetworkError
      then show ?thesis using True Cons.IH by (simp add: p tw http_ready_def)
    next
      case (Response status)
      then show ?thesis using True Cons.IH
        by (cases "okStatus status") (auto simp: p tw http_ready_def okStatus_def)
    qed
  qed
qed

lemma waitForHTTP_returns:
  "http_deadline_seen timeoutMs t0 polls \<Longrightarrow> waitForHTTP url timeoutMs t0 polls \<noteq> None"
  by (induction polls)
     (auto simp: http_deadline_seen_def split: fetch_result.splits)

lemma waitForHTTP_keeps_polling:
  "now - t0 < timeoutMs \<Longrightarrow> fetch url = NetworkError \<or> (\<exists>c. fetch url = Response c \<and> c \<ge> 500) \<Longrightarrow>
     waitForHTTP url timeoutMs t0 ((now, fetch) # rest) = waitForHTTP url timeoutMs t0 rest"
  by (auto simp: okStatus_def)

text \<open>
  C2: waitForHTTP returns true exactly when one of the GET requests made before the time
  budget is seen to be exhausted answers with a status in [200, 500); a status of 500 or
  more and a network error leave it polling; and once the clock shows the budget
  exhausted the call returns, with false unless such an answer came earlier.
\<close>

theorem waitForHTTP_ready_iff:
  "(waitForHTTP url timeoutMs t0 polls = Some True \<longleftrightarrow>
      list_ex (http_ready url) (http_in_budget timeoutMs t0 polls)) \<and>
   (now - t0 < timeoutMs \<and> (fetch url = NetworkError \<or> (\<exists>c. fetch url = Response c \<and> c \<ge> 500)) \<longrightarrow>
      waitForHTTP url timeoutMs t0 ((now, fetch) # rest) = waitForHTTP url timeoutMs t0 rest) \<and>
   (http_deadline_seen timeoutMs t0 polls \<longrightarrow>
      waitForHTTP url timeoutMs t0 polls =
        Some (list_ex (http_ready url) (http_in_budget timeoutMs t0 polls)))"
proof (intro conjI impI)
  show "waitForHTTP url timeoutMs t0 polls = Some True \<longleftrightarrow>
      list_ex (http_ready url) (http_in_budget timeoutMs t0 polls)"
    by (rule waitForHTTP_Some_True)
next
  assume "now - t0 < timeoutMs \<and> (fetch url = NetworkError \<or> (\<exists>c. fetch url = Response c \<and> c \<ge> 500))"
  then show "waitForHTTP url timeoutMs t0 ((now, fetch) # rest) = waitForHTTP url timeoutMs t0 rest"
    using waitForHTTP_keeps_polling by blast
next
  assume "http_deadline_seen timeoutMs t0 polls"
  then obtain b where b: "waitForHTTP url timeoutMs t0 polls = Some b"
    using waitForHTTP_returns by blast
  show "waitForHTTP url timeoutMs t0 polls =
        Some (list_ex (http_ready url) (http_in_budget timeoutMs t0 polls))"
    using b waitForHTTP_Some_True [of url timeoutMs t0 polls] by (cases b) auto
qed

theorem waitForHTTP_ready_iff_witness:
  "waitForHTTP ''http://127.0.0.1:2019/config'' 200 1000
     [(1000, \<lambda>u. NetworkError), (1050, \<lambda>u. Response 503), (1100, \<lambda>u. Response 401),
      (1250, \<lambda>u. Response 200)] = Some True \<and>
   waitForHTTP ''http://127.0.0.1:2019/config'' 200 1000
     [(1000, \<lambda>u. NetworkError), (1050, \<lambda>u. Response 503)] =
   waitForHTTP ''http://127.0.0.1:2019/config'' 200 1000 [(1050, \<lambda>u. Response 503)] \<and>
   waitForHTTP ''http://127.0.0.1:2019/config'' 200 1000
     [(1000, \<lambda>u. NetworkError), (1050, \<lambda>u. Response 500), (1210, \<lambda>u. Response 200)] = Some False"
  using waitForHTTP_ready_iff [of "''http://127.0.0.1:2019/config''" 200 1000
          "[(1000, \<lambda>u. NetworkError), (1050, \<lambda>u. Response 503), (1100, \<lambda>u. Response 401),
            (1250, \<lambda>u. Response 200)]" 1000 "\<lambda>u. NetworkError" "[(1050, \<lambda>u. Response 503)]"]
        waitForHTTP_ready_iff [of "''http://127.0.0.1:2019/config''" 200 1000
          "[(1000, \<lambda>u. NetworkError), (1050, \<lambda>u. Response 500), (1210, \<lambda>u. Response 200)]"]
  by (simp add: http_in_budget_def http_ready_def http_deadline_seen_def)

lemma waitForLogPattern_loop_Some_True:
  "waitForLogPattern_loop logFile regex deadline offset polls = Some True \<longleftrightarrow>
     list_ex regex (log_slices logFile offset (log_in_budget deadline polls))"
proof (induction polls arbitrary: offset)
  case Nil
  then show ?case by (simp add: log_in_budget_def)
next
  case (Cons p polls)
  obtain now rd where p: "p = (now, rd)" by (cases p)
  show ?case
  proof (cases "now < deadline")
    case False
    then show ?thesis by (simp add: p log_in_budget_def)
  next
    case True
    have tw: "log_in_budget deadline ((now, rd) # polls) = (now, rd) # log_in_budget deadline polls"
      using True by (simp add: log_in_budget_def)
    show ?thesis
    proof (cases "rd logFile")
      case None
      then show ?thesis using True Cons.IH [of offset] by (simp add: p tw)
    next
      case (Some body)
      then show ?thesis using True Cons.IH [of "length body"] by (simp add: p tw Let_def)
    qed
  qed
qed

lemma waitForLogPattern_loop_returns:
  "list_ex (\<lambda>p. \<not> fst p < deadline) polls \<Longrightarrow>
     waitForLogPattern_loop logFile regex deadline offset polls \<noteq> None"
  by (induction polls arbitrary: offset) (auto simp: Let_def split: option.splits)

text \<open>
  C1 (as the code has it): the probe starts with offset 0, so its first successful read
  hands the whole file, content from before the probe included, to the regular expression.
  Each later poll tests only the slice past the length of the previous successful read.
  The probe answers true exactly when one of these slices, taken while the deadline has
  not passed, matches; and it returns once the clock shows the deadline.
\<close>

theorem waitForLogPattern_slices:
  "(waitForLogPattern logFile regex timeoutMs t0 polls = Some True \<longleftrightarrow>
      list_ex regex (log_slices logFile 0 (log_in_budget (t0 + timeoutMs) polls))) \<and>
   (now < t0 + timeoutMs \<and> rd logFile = Some text \<and> regex text \<longrightarrow>
      waitForLogPattern logFile regex timeoutMs t0 ((now, rd) # rest) = Some True) \<and>
   (now < t0 + timeoutMs \<and> rd logFile = Some text \<and> \<not> regex text \<longrightarrow>
      (waitForLogPattern logFile regex timeoutMs t0 ((now, rd) # rest) = Some True \<longleftrightarrow>
         list_ex regex (log_slices logFile (length text) (log_in_budget (t0 + timeoutMs) rest)))) \<and>
   (list_ex (\<lambda>p. \<not> fst p < t0 + timeoutMs) polls \<longrightarrow>
      waitForLogPattern logFile regex timeoutMs t0 polls =
        Some (list_ex regex (log_slices logFile 0 (log_in_budget (t0 + timeoutMs) polls))))"
proof -
  have a: "waitForLogPattern logFile regex timeoutMs t0 polls = Some True \<longleftrightarrow>
      list_ex regex (log_slices logFile 0 (log_in_budget (t0 + timeoutMs) polls))"
    unfolding waitForLogPattern_def by (rule waitForLogPattern_loop_Some_True)
  have b: "waitForLogPattern logFile regex timeoutMs t0 ((now, rd) # rest) = Some True"
    if "now < t0 + timeoutMs \<and> rd logFile = Some text \<and> regex text"
    using that by (simp add: waitForLogPattern_def)
  have c: "waitForLogPattern logFile regex timeoutMs t0 ((now, rd) # rest) = Some True \<longleftrightarrow>
         list_ex regex (log_slices logFile (length text) (log_in_budget (t0 + timeoutMs) rest))"
    if h: "now < t0 + timeoutMs \<and> rd logFile = Some text \<and> \<not> regex text"
  proof -
    have "waitForLogPattern logFile regex timeoutMs t0 ((now, rd) # rest) =
        waitForLogPattern_loop logFile regex (t0 + timeoutMs) (length text) rest"
      using h by (simp add: waitForLogPattern_def)
    then show ?thesis by (simp add: waitForLogPattern_loop_Some_True)
  qed
  have d: "waitForLogPattern logFile regex timeoutMs t0 polls =
        Some (list_ex regex (log_slices logFile 0 (log_in_budget (t0 + timeoutMs) polls)))"
    if dl: "list_ex (\<lambda>p. \<not> fst p < t0 + timeoutMs) polls"
  proof -
    obtain r where r: "waitForLogPattern logFile regex timeoutMs t0 polls = Some r"
      using dl waitForLogPattern_loop_returns [of "t0 + timeoutMs" polls logFile regex 0]
      unfolding waitForLogPattern_def by auto
    show ?thesis using a r by (cases r) auto
  qed
  show ?thesis using a b c d by blast
qed

theorem waitForLogPattern_slices_witness:
  "waitForLogPattern ''caddy.log'' (\<lambda>s. str_includes s ''ready'') 200 1000
     [(1000, \<lambda>f. None), (1050, \<lambda>f. Some ''boot''), (1100, \<lambda>f. Some ''boot ready'')] = Some True \<and>
   waitForLogPattern ''caddy.log'' (\<lambda>s. str_includes s ''ready'') 200 1000
     [(1000, \<lambda>f. Some ''ready''), (1050, \<lambda>f. Some ''ready'')] = Some True \<and>
   waitForLogPattern ''caddy.log'' (\<lambda>s. str_includes s ''ready'') 200 1000
     [(1000, \<lambda>f. Some ''rea''), (1050, \<lambda>f. Some ''ready''), (1200, \<lambda>f. Some ''ready ready'')] = Some False"
  using waitForLogPattern_slices [of "''caddy.log''" "\<lambda>s. str_includes s ''ready''" 200 1000
          "[(1000, \<lambda>f. None), (1050, \<lambda>f. Some ''boot''), (1100, \<lambda>f. Some ''boot ready'')]"
          1000 "\<lambda>f. Some ''ready''" "''ready''" "[(1050, \<lambda>f. Some ''ready'')]"]
        waitForLogPattern_slices [of "''caddy.log''" "\<lambda>s. str_includes s ''ready''" 200 1000
          "[(1000, \<lambda>f. Some ''rea''), (1050, \<lambda>f. Some ''ready''), (1200, \<lambda>f. Some ''ready ready'')]"
          1000 "\<lambda>f. Some ''rea''" "''rea''" "[(1050, \<lambda>f. Some ''ready''), (1200, \<lambda>f. Some ''ready ready'')]"]
  by (simp add: log_in_budget_def)

text \<open>
  C1 as stated fails: the log file holds \<open>ready\<close> when the probe starts and nothing is
  appended to it (the part past the content of the start is empty and does not match),
  yet the first poll reports ready.
\<close>

theorem waitForLogPattern_preexisting_counterexample:
  "drop (length ''ready'') ''ready'' = [] \<and> \<not> str_includes [] ''ready'' \<and>
   waitForLogPattern ''caddy.log'' (\<lambda>s. str_includes s ''ready'') 200 1000
     [(1000, \<lambda>f. Some ''ready''), (1050, \<lambda>f. Some ''ready''), (1100, \<lambda>f. Some ''ready'')] = Some True"
  by (simp add: waitForLogPattern_def)

subsection \<open>Process supervisor\<close>

lemmas io_defs = and_then_def try_catch_ignore_def process_kill_def taskkill_def sleep_def skip_def emit_def

lemma killProcessTree_trace_unix:
  "killProcessTree False os pid gentleMs killGroup w =
     (Inr (), w\<lparr>trace := trace w @
        (if killGroup then [Signal (- pid) SIGTERM] else []) @ [Signal pid SIGTERM, Sleep gentleMs] @
        (if killGroup then [Signal (- pid) SIGKILL] else []) @ [Signal pid SIGKILL]\<rparr>)"
  by (simp add: killProcessTree_def io_defs)

lemma killProcessTree_trace_win:
  "killProcessTree True os pid gentleMs killGroup w =
     (Inr (), w\<lparr>trace := trace w @
        [Taskkill pid killGroup False, Sleep gentleMs, Taskkill pid killGroup True]\<rparr>)"
  by (simp add: killProcessTree_def io_defs)

text \<open>
  C6: on a Unix-like platform killProcessTree sends SIGTERM to the group \<open>- pid\<close> (when
  killGroup is set) and then to \<open>pid\<close>, sleeps gentleMs, and sends SIGKILL to the group and
  then to \<open>pid\<close>; whatever each \<^verbatim>\<open>process.kill\<close> answers, the call returns normally and
  touches no file.
\<close>

theorem killProcessTree_two_phase:
  "killProcessTree False os pid gentleMs killGroup w =
     (Inr (), w\<lparr>trace := trace w @
        (if killGroup then [Signal (- pid) SIGTERM] else []) @ [Signal pid SIGTERM, Sleep gentleMs] @
        (if killGroup then [Signal (- pid) SIGKILL] else []) @ [Signal pid SIGKILL]\<rparr>)"
  by (rule killProcessTree_trace_unix)

lemma not_valid_pid:
  "\<not> (isFinite x \<and> gt_one x) \<longleftrightarrow> \<not> isFinite x \<or> le_one x"
  by (cases x) (auto simp: isFinite_def gt_one_def le_one_def)

text \<open>
  C10: when the text of the PID-file does not parse to a finite number greater than 1,
  stopByPidFile returns stopped = false with the error message and leaves the world as it
  was; and whatever the file holds, every signal (or taskkill) the call adds goes to a
  target of magnitude above 1, so 0, 1 and \<open>- 1\<close> are never signalled.
\<close>

theorem stopByPidFile_invalid_pid:
  "(files w pidFile = Some raw \<and> \<not> (isFinite (parseInt (trim raw)) \<and> gt_one (parseInt (trim raw))) \<longrightarrow>
      stopByPidFile isWin os pidFile gentleMs killGroup w =
        (\<lparr>stopped = False, stopped_pid = None, reason = None,
          error_message = Some (''invalid pid in '' @ pidFile)\<rparr>, w)) \<and>
   (Signal target sg \<in> set (trace (snd (stopByPidFile isWin os pidFile gentleMs killGroup w))) \<longrightarrow>
      Signal target sg \<in> set (trace w) \<or> target > 1 \<or> target < - 1) \<and>
   (Taskkill target tree force \<in> set (trace (snd (stopByPidFile isWin os pidFile gentleMs killGroup w))) \<longrightarrow>
      Taskkill target tree force \<in> set (trace w) \<or> target > 1)"
proof (intro conjI impI)
  assume h: "files w pidFile = Some raw \<and> \<not> (isFinite (parseInt (trim raw)) \<and> gt_one (parseInt (trim raw)))"
  then have "\<not> isFinite (parseInt (trim raw)) \<or> le_one (parseInt (trim raw))"
    using not_valid_pid by blast
  then show "stopByPidFile isWin os pidFile gentleMs killGroup w =
        (\<lparr>stopped = False, stopped_pid = None, reason = None,
          error_message = Some (''invalid pid in '' @ pidFile)\<rparr>, w)"
    using h by (auto simp: stopByPidFile_def readFile_def stop_catch_def error_code_def error_msg_def Let_def)
next
  assume "Signal target sg \<in> set (trace (snd (stopByPidFile isWin os pidFile gentleMs killGroup w)))"
  then show "Signal target sg \<in> set (trace w) \<or> target > 1 \<or> target < - 1"
    apply (cases "files w pidFile")
     apply (simp add: stopByPidFile_def readFile_def)
    subgoal for raw
      apply (cases "parseInt (trim raw)")
      apply (cases isWin; auto simp: stopByPidFile_def readFile_def Let_def isFinite_def le_one_def int_of_number_def rm_def emit_def killProcessTree_trace_unix killProcessTree_trace_win split: if_splits)+
      done
    done
next
  assume "Taskkill target tree force \<in> set (trace (snd (stopByPidFile isWin os pidFile gentleMs killGroup w)))"
  then show "Taskkill target tree force \<in> set (trace w) \<or> target > 1"
    apply (cases "files w pidFile")
     apply (simp add: stopByPidFile_def readFile_def)
    subgoal for raw
      apply (cases "parseInt (trim raw)")
      apply (cases isWin; auto simp: stopByPidFile_def readFile_def Let_def isFinite_def le_one_def int_of_number_def rm_def emit_def killProcessTree_trace_unix killProcessTree_trace_win split: if_splits)+
      done
    done
qed

lemma stale_pid_handling_live:
  "live_pid_recorded a pidFile w \<Longrightarrow>
   stale_pid_handling a pidFile w =
     (Some \<lparr>status = AlreadyRunning, started_pid = recorded_pid pidFile w, alive = True, ready = Some True\<rparr>,
      emit ConsoleLog w)"
  by (auto simp: stale_pid_handling_def live_pid_recorded_def recorded_pid_def pathExists_def Let_def
           split: option.splits)

lemma stale_pid_handling_stale:
  "\<not> live_pid_recorded a pidFile w \<Longrightarrow>
   stale_pid_handling a pidFile w = (None, if files w pidFile \<noteq> None then rm pidFile w else w)"
  by (auto simp: stale_pid_handling_def live_pid_recorded_def pathExists_def Let_def
           split: option.splits)

lemma world_eqI: "files (w::world) = files w' \<Longrightarrow> trace w = trace w' \<Longrightarrow> w = w'"
  by simp

lemma ensure_trace [simp]:
  "trace (ensureFileDir p w) = trace w @ [EnsureFileDir p]" "files (ensureFileDir p w) = files w"
  by (simp_all add: ensureFileDir_def emit_def)

lemma emit_simps [simp]:
  "trace (emit e w) = trace w @ [e]" "files (emit e w) = files w"
  by (simp_all add: emit_def)

lemma rm_simps [simp]:
  "trace (rm p w) = trace w @ [RemoveFile p]" "files (rm p w) = (files w)(p := None)"
  by (simp_all add: rm_def)

lemma writeFile_simps [simp]:
  "trace (writeFile p b w) = trace w @ [WriteFile p b]" "files (writeFile p b w) = (files w)(p \<mapsto> b)"
  by (simp_all add: writeFile_def)

lemma startDaemon_already_running:
  assumes "opt_pidFile opts \<noteq> []" "opt_logFile opts \<noteq> []"
    and "live_pid_recorded (obs k) (opt_pidFile opts) w"
  shows "startDaemon obs k opts w =
     (Inr \<lparr>status = AlreadyRunning, started_pid = recorded_pid (opt_pidFile opts) w,
           alive = True, ready = Some True\<rparr>,
      w\<lparr>trace := trace w @ [EnsureFileDir (opt_pidFile opts), EnsureFileDir (opt_logFile opts), ConsoleLog]\<rparr>)"
proof -
  let ?w1 = "ensureFileDir (opt_logFile opts) (ensureFileDir (opt_pidFile opts) w)"
  have l: "live_pid_recorded (obs k) (opt_pidFile opts) ?w1"
    using assms(3) by (simp add: live_pid_recorded_def)
  have r: "recorded_pid (opt_pidFile opts) ?w1 = recorded_pid (opt_pidFile opts) w"
    by (simp add: recorded_pid_def)
  have e: "emit ConsoleLog ?w1 =
      w\<lparr>trace := trace w @ [EnsureFileDir (opt_pidFile opts), EnsureFileDir (opt_logFile opts), ConsoleLog]\<rparr>"
    by (simp add: ensureFileDir_def emit_def)
  show ?thesis
    using assms(1,2) by (simp add: startDaemon.simps [of obs k opts w] Let_def stale_pid_handling_live [OF l] r e)
qed

lemma startDaemon_spawn_path:
  assumes "opt_pidFile opts \<noteq> []" "opt_logFile opts \<noteq> []"
    and "\<not> live_pid_recorded (obs k) (opt_pidFile opts) w"
  shows "startDaemon obs k opts w =
     (case resolveBinary (obs k) (opt_binary opts) of
        None \<Rightarrow> (Inl (Error (''Binary not found: '' @ opt_binary opts)), reclaimed_world opts w)
      | Some binPath \<Rightarrow>
          if \<not> alive_at_healthcheck (obs k)
          then (Inr \<lparr>status = Failed, started_pid = child_pid (obs k), alive = False, ready = None\<rparr>,
                rm (opt_pidFile opts) (spawned_world (obs k) opts binPath w))
          else
            (case waitReadiness (obs k) (opt_readiness opts) of
               Inl e \<Rightarrow> (Inl e, spawned_world (obs k) opts binPath w)
             | Inr ok \<Rightarrow>
                 if \<not> ok then
                   (if opt_restartPolicy opts = OnFailure \<and>
                       (\<not> alive_after_readiness (obs k) \<and>
                        now_after_readiness (obs k) - startedAt (obs k) < opt_minUptimeMs opts)
                    then startDaemon obs (Suc k) (opts\<lparr>opt_restartPolicy := Never\<rparr>)
                           (emit ConsoleWarn (spawned_world (obs k) opts binPath w))
                    else (Inr \<lparr>status = Started, started_pid = child_pid (obs k),
                                alive = True, ready = Some False\<rparr>,
                          spawned_world (obs k) opts binPath w))
                 else (Inr \<lparr>status = Started, started_pid = child_pid (obs k),
                             alive = True, ready = Some True\<rparr>,
                       spawned_world (obs k) opts binPath w)))"
proof -
  let ?w1 = "ensureFileDir (opt_logFile opts) (ensureFileDir (opt_pidFile opts) w)"
  let ?w2 = "if files ?w1 (opt_pidFile opts) \<noteq> None then rm (opt_pidFile opts) ?w1 else ?w1"
  have l: "\<not> live_pid_recorded (obs k) (opt_pidFile opts) ?w1"
    using assms(3) by (simp add: live_pid_recorded_def)
  have w2: "?w2 = reclaimed_world opts w"
    by (rule world_eqI) (auto simp: reclaimed_world_def)
  have w6: "emit (Sleep STARTUP_HEALTHCHECK_DELAY_MS)
        (writeFile (opt_pidFile opts) (string_of_int (child_pid (obs k)) @ [CHR 0x0A])
          (emit (Spawn binPath (opt_args opts)) (emit (OpenAppend (opt_logFile opts)) (reclaimed_world opts w)))) =
      spawned_world (obs k) opts binPath w" for binPath
    by (rule world_eqI) (auto simp: spawned_world_def reclaimed_world_def)
  have s: "stale_pid_handling (obs k) (opt_pidFile opts) ?w1 = (None, reclaimed_world opts w)"
    using stale_pid_handling_stale [OF l] w2 by simp
  show ?thesis
    using assms(1,2)
    by (auto simp: startDaemon.simps [of obs k opts w] Let_def s w6 split: option.splits sum.splits)
qed

lemma spawn_count_simps [simp]:
  "spawn_count (reclaimed_world opts w) = spawn_count w"
  "spawn_count (spawned_world a opts binPath w) = Suc (spawn_count w)"
  "spawn_count (rm p w) = spawn_count w"
  "spawn_count (emit ConsoleWarn w) = spawn_count w"
  "spawn_count (w\<lparr>trace := trace w @ [EnsureFileDir p, EnsureFileDir q, ConsoleLog]\<rparr>) = spawn_count w"
  by (simp_all add: spawn_count_def reclaimed_world_def spawned_world_def is_spawn_def)

lemma startDaemon_never_spawns:
  assumes "opt_restartPolicy opts = Never"
  shows "spawn_count (snd (startDaemon obs k opts w)) \<le> Suc (spawn_count w)"
proof (cases "opt_pidFile opts = [] \<or> opt_logFile opts = []")
  case True
  then show ?thesis by (auto simp: startDaemon.simps [of obs k opts w])
next
  case False
  then have ne: "opt_pidFile opts \<noteq> []" "opt_logFile opts \<noteq> []" by simp_all
  show ?thesis
  proof (cases "live_pid_recorded (obs k) (opt_pidFile opts) w")
    case True
    show ?thesis using ne True by (simp add: startDaemon_already_running)
  next
    case False
    show ?thesis using assms ne False
      by (simp add: startDaemon_spawn_path split: option.splits sum.splits)
  qed
qed

lemma startDaemon_spawns_le_2:
  "spawn_count (snd (startDaemon obs k opts w)) \<le> spawn_count w + 2"
proof (cases "opt_pidFile opts = [] \<or> opt_logFile opts = []")
  case True
  then show ?thesis by (auto simp: startDaemon.simps [of obs k opts w])
next
  case False
  then have ne: "opt_pidFile opts \<noteq> []" "opt_logFile opts \<noteq> []" by simp_all
  show ?thesis
  proof (cases "live_pid_recorded (obs k) (opt_pidFile opts) w")
    case True
    show ?thesis using ne True by (simp add: startDaemon_already_running)
  next
    case False
    have n: "spawn_count (snd (startDaemon obs (Suc k) (opts\<lparr>opt_restartPolicy := Never\<rparr>) w')) \<le> Suc (spawn_count w')" for w'
      by (rule startDaemon_never_spawns) simp
    show ?thesis
      using n [of "emit ConsoleWarn (spawned_world (obs k) opts binPath w)" for binPath] ne False
      by (auto simp: startDaemon_spawn_path split: option.splits sum.splits)
  qed
qed

text \<open>
  C4: with restartPolicy on-failure, when readiness fails, the child is no longer alive
  and less than minUptimeMs has passed since the spawn, startDaemon is the same call made
  again with restartPolicy never; a call with policy never spawns at most once, so any
  call spawns at most twice. When readiness fails and the child is still alive there is no
  retry: the call returns started with ready = false after its single spawn.
\<close>

theorem startDaemon_retry_once:
  "(opt_pidFile opts \<noteq> [] \<and> opt_logFile opts \<noteq> [] \<and>
    \<not> live_pid_recorded (obs k) (opt_pidFile opts) w \<and>
    resolveBinary (obs k) (opt_binary opts) = Some binPath \<and>
    alive_at_healthcheck (obs k) \<and>
    waitReadiness (obs k) (opt_readiness opts) = Inr False \<and>
    opt_restartPolicy opts = OnFailure \<and>
    \<not> alive_after_readiness (obs k) \<and>
    now_after_readiness (obs k) - startedAt (obs k) < opt_minUptimeMs opts \<longrightarrow>
      startDaemon obs k opts w =
        startDaemon obs (Suc k) (opts\<lparr>opt_restartPolicy := Never\<rparr>)
          (emit ConsoleWarn (spawned_world (obs k) opts binPath w))) \<and>
   (opt_restartPolicy opts = Never \<longrightarrow>
      spawn_count (snd (startDaemon obs k opts w)) \<le> spawn_count w + 1) \<and>
   spawn_count (snd (startDaemon obs k opts w)) \<le> spawn_count w + 2 \<and>
   (opt_pidFile opts \<noteq> [] \<and> opt_logFile opts \<noteq> [] \<and>
    \<not> live_pid_recorded (obs k) (opt_pidFile opts) w \<and>
    resolveBinary (obs k) (opt_binary opts) = Some binPath \<and>
    alive_at_healthcheck (obs k) \<and>
    waitReadiness (obs k) (opt_readiness opts) = Inr False \<and>
    alive_after_readiness (obs k) \<longrightarrow>
      startDaemon obs k opts w =
        (Inr \<lparr>status = Started, started_pid = child_pid (obs k), alive = True, ready = Some False\<rparr>,
         spawned_world (obs k) opts binPath w) \<and>
      spawn_count (snd (startDaemon obs k opts w)) = spawn_count w + 1)"
proof -
  have a: "startDaemon obs k opts w =
        startDaemon obs (Suc k) (opts\<lparr>opt_restartPolicy := Never\<rparr>)
          (emit ConsoleWarn (spawned_world (obs k) opts binPath w))"
    if "opt_pidFile opts \<noteq> []" "opt_logFile opts \<noteq> []"
      "\<not> live_pid_recorded (obs k) (opt_pidFile opts) w"
      "resolveBinary (obs k) (opt_binary opts) = Some binPath"
      "alive_at_healthcheck (obs k)"
      "waitReadiness (obs k) (opt_readiness opts) = Inr False"
      "opt_restartPolicy opts = OnFailure"
      "\<not> alive_after_readiness (obs k)"
      "now_after_readiness (obs k) - startedAt (obs k) < opt_minUptimeMs opts"
    using that by (simp add: startDaemon_spawn_path)
  have b: "spawn_count (snd (startDaemon obs k opts w)) \<le> spawn_count w + 1"
    if "opt_restartPolicy opts = Never"
    using startDaemon_never_spawns [OF that, of obs k w] by simp
  have c: "startDaemon obs k opts w =
        (Inr \<lparr>status = Started, started_pid = child_pid (obs k), alive = True, ready = Some False\<rparr>,
         spawned_world (obs k) opts binPath w)"
    if "opt_pidFile opts \<noteq> []" "opt_logFile opts \<noteq> []"
      "\<not> live_pid_recorded (obs k) (opt_pidFile opts) w"
      "resolveBinary (obs k) (opt_binary opts) = Some binPath"
      "alive_at_healthcheck (obs k)"
      "waitReadiness (obs k) (opt_readiness opts) = Inr False"
      "alive_after_readiness (obs k)"
    using that by (simp add: startDaemon_spawn_path)
  show ?thesis
    using a b c startDaemon_spawns_le_2 [of obs k opts w] by auto
qed

lemmas num_defs = parseInt_def trim_def js_whitespace_def is_digit_def digit_val_def
  number_of_int_def isFinite_def gt_one_def le_one_def int_of_number_def string_of_int_def Let_def

lemmas ex_defs = ex_opts_def ex_attempt_def ex_world_def ex_os_def resolveBinary_def isAbsolute_def

lemmas sd_defs = stale_pid_handling_def pathExists_def waitReadiness_def ensureFileDir_def
  emit_def rm_def writeFile_def STARTUP_HEALTHCHECK_DELAY_MS_def

lemma startDaemon_never_failed:
  assumes "opt_restartPolicy opts = Never"
    and "fst (startDaemon obs k opts w) = Inr r" and "status r = Failed"
  shows "\<not> alive r \<and> files (snd (startDaemon obs k opts w)) (opt_pidFile opts) = None"
proof (cases "opt_pidFile opts = [] \<or> opt_logFile opts = []")
  case True
  then show ?thesis using assms by (auto simp: startDaemon.simps [of obs k opts w])
next
  case False
  then have ne: "opt_pidFile opts \<noteq> []" "opt_logFile opts \<noteq> []" by simp_all
  show ?thesis
  proof (cases "live_pid_recorded (obs k) (opt_pidFile opts) w")
    case True
    show ?thesis using ne True assms by (auto simp: startDaemon_already_running)
  next
    case False
    show ?thesis using assms ne False
      by (auto simp: startDaemon_spawn_path split: option.splits sum.splits if_splits)
  qed
qed

lemma startDaemon_failed:
  assumes "fst (startDaemon obs k opts w) = Inr r" and "status r = Failed"
  shows "\<not> alive r \<and> files (snd (startDaemon obs k opts w)) (opt_pidFile opts) = None"
proof (cases "opt_pidFile opts = [] \<or> opt_logFile opts = []")
  case True
  then show ?thesis using assms by (auto simp: startDaemon.simps [of obs k opts w])
next
  case False
  then have ne: "opt_pidFile opts \<noteq> []" "opt_logFile opts \<noteq> []" by simp_all
  show ?thesis
  proof (cases "live_pid_recorded (obs k) (opt_pidFile opts) w")
    case True
    show ?thesis using ne True assms by (auto simp: startDaemon_already_running)
  next
    case False
    have n: "fst (startDaemon obs (Suc k) (opts\<lparr>opt_restartPolicy := Never\<rparr>) w') = Inr r \<Longrightarrow>
        \<not> alive r \<and> files (snd (startDaemon obs (Suc k) (opts\<lparr>opt_restartPolicy := Never\<rparr>) w')) (opt_pidFile opts) = None" for w'
      using startDaemon_never_failed [of "opts\<lparr>opt_restartPolicy := Never\<rparr>" obs "Suc k" w' r] assms(2)
      by simp
    show ?thesis using assms ne False n
      by (auto simp: startDaemon_spawn_path split: option.splits sum.splits if_splits)
  qed
qed

text \<open>
  C8: when a call of startDaemon reaches the spawn (no live PID is recorded and the binary
  resolves) and the child is not alive after the start-up sleep, the call returns failed
  with alive = false, and the PID-file it has just written is removed again; more
  generally, whenever startDaemon returns failed the PID-file is absent afterwards.
\<close>

theorem startDaemon_dead_child:
  "(opt_pidFile opts \<noteq> [] \<and> opt_logFile opts \<noteq> [] \<and>
    \<not> live_pid_recorded (obs k) (opt_pidFile opts) w \<and>
    resolveBinary (obs k) (opt_binary opts) = Some binPath \<and>
    \<not> alive_at_healthcheck (obs k) \<longrightarrow>
      fst (startDaemon obs k opts w) =
        Inr \<lparr>status = Failed, started_pid = child_pid (obs k), alive = False, ready = None\<rparr> \<and>
      files (snd (startDaemon obs k opts w)) (opt_pidFile opts) = None \<and>
      trace (snd (startDaemon obs k opts w)) =
        trace (reclaimed_world opts w) @
        [OpenAppend (opt_logFile opts), Spawn binPath (opt_args opts),
         WriteFile (opt_pidFile opts) (string_of_int (child_pid (obs k)) @ [CHR 0x0A]),
         Sleep STARTUP_HEALTHCHECK_DELAY_MS, RemoveFile (opt_pidFile opts)]) \<and>
   (fst (startDaemon obs k opts w) = Inr r \<and> status r = Failed \<longrightarrow>
      \<not> alive r \<and> files (snd (startDaemon obs k opts w)) (opt_pidFile opts) = None)"
proof -
  have a: "startDaemon obs k opts w =
      (Inr \<lparr>status = Failed, started_pid = child_pid (obs k), alive = False, ready = None\<rparr>,
       rm (opt_pidFile opts) (spawned_world (obs k) opts binPath w))"
    if "opt_pidFile opts \<noteq> []" "opt_logFile opts \<noteq> []"
      "\<not> live_pid_recorded (obs k) (opt_pidFile opts) w"
      "resolveBinary (obs k) (opt_binary opts) = Some binPath"
      "\<not> alive_at_healthcheck (obs k)"
    using that by (simp add: startDaemon_spawn_path)
  have b: "trace (rm (opt_pidFile opts) (spawned_world (obs k) opts binPath w)) =
        trace (reclaimed_world opts w) @
        [OpenAppend (opt_logFile opts), Spawn binPath (opt_args opts),
         WriteFile (opt_pidFile opts) (string_of_int (child_pid (obs k)) @ [CHR 0x0A]),
         Sleep STARTUP_HEALTHCHECK_DELAY_MS, RemoveFile (opt_pidFile opts)]"
    by (simp add: spawned_world_def)
  have c: "files (rm (opt_pidFile opts) (spawned_world (obs k) opts binPath w)) (opt_pidFile opts) = None"
    by simp
  show ?thesis
    using a b c startDaemon_failed [of obs k opts w r] by auto
qed

theorem startDaemon_dead_child_witness:
  "fst (startDaemon (\<lambda>k. ex_attempt (\<lambda>p. False) 4242 False False False) 0 (ex_opts Never)
          (ex_world (Some ''999999''))) =
     Inr \<lparr>status = Failed, started_pid = 4242, alive = False, ready = None\<rparr> \<and>
   files (snd (startDaemon (\<lambda>k. ex_attempt (\<lambda>p. False) 4242 False False False) 0 (ex_opts Never)
          (ex_world (Some ''999999'')))) ''/ws/caddy.pid'' = None \<and>
   trace (snd (startDaemon (\<lambda>k. ex_attempt (\<lambda>p. False) 4242 False False False) 0 (ex_opts Never)
          (ex_world (Some ''999999'')))) =
     [EnsureFileDir ''/ws/caddy.pid'', EnsureFileDir ''/ws/logs/caddy.log'',
      RemoveFile ''/ws/caddy.pid'', OpenAppend ''/ws/logs/caddy.log'',
      Spawn ''/usr/bin/caddy'' [''run''], WriteFile ''/ws/caddy.pid'' (''4242'' @ [CHR 0x0A]),
      Sleep 50, RemoveFile ''/ws/caddy.pid'']"
  using startDaemon_dead_child [of "ex_opts Never" "\<lambda>k. ex_attempt (\<lambda>p. False) 4242 False False False" 0
          "ex_world (Some ''999999'')" "''/usr/bin/caddy''"
          "\<lparr>status = Failed, started_pid = 4242, alive = False, ready = None\<rparr>"]
  by (simp add: ex_defs live_pid_recorded_def reclaimed_world_def num_defs nat_digits.simps
        STARTUP_HEALTHCHECK_DELAY_MS_def)

lemma startDaemon_never_trace_prefix:
  assumes "opt_restartPolicy opts = Never"
  shows "prefix (trace w) (trace (snd (startDaemon obs k opts w)))"
proof (cases "opt_pidFile opts = [] \<or> opt_logFile opts = []")
  case True
  then show ?thesis by (auto simp: startDaemon.simps [of obs k opts w])
next
  case False
  then have ne: "opt_pidFile opts \<noteq> []" "opt_logFile opts \<noteq> []" by simp_all
  show ?thesis
  proof (cases "live_pid_recorded (obs k) (opt_pidFile opts) w")
    case True
    show ?thesis using ne True by (simp add: startDaemon_already_running)
  next
    case False
    show ?thesis using assms ne False
      by (simp add: startDaemon_spawn_path spawned_world_def reclaimed_world_def
            split: option.splits sum.splits)
  qed
qed

lemma startDaemon_spawn_trace_prefix:
  assumes "opt_pidFile opts \<noteq> []" "opt_logFile opts \<noteq> []"
    and "\<not> live_pid_recorded (obs k) (opt_pidFile opts) w"
    and "resolveBinary (obs k) (opt_binary opts) = Some binPath"
  shows "prefix (trace (spawned_world (obs k) opts binPath w)) (trace (snd (startDaemon obs k opts w)))"
proof -
  have n: "prefix (trace w') (trace (snd (startDaemon obs (Suc k) (opts\<lparr>opt_restartPolicy := Never\<rparr>) w')))" for w'
    by (rule startDaemon_never_trace_prefix) simp
  have p: "prefix (trace (spawned_world (obs k) opts binPath w))
      (trace (snd (startDaemon obs (Suc k) (opts\<lparr>opt_restartPolicy := Never\<rparr>)
         (emit ConsoleWarn (spawned_world (obs k) opts binPath w)))))"
    using n [of "emit ConsoleWarn (spawned_world (obs k) opts binPath w)"]
    by (simp add: prefix_def) (metis append.assoc)
  show ?thesis using assms p
    by (auto simp: startDaemon_spawn_path split: option.splits sum.splits)
qed

text \<open>
  C3 (as the code has it): when the PID-file exists and its text parses to a PID greater
  than 1 that \<^verbatim>\<open>isAlive\<close> reports alive, startDaemon returns already-running with that PID,
  spawns nothing and leaves the file alone. When the file exists and the check does not
  accept it (no number, a number of 1 or less, or a PID that is not alive), the file is
  removed; then, if the binary resolves, the child is spawned and its PID written to the
  file, and if it does not, the call throws "Binary not found" with the file removed.
\<close>

theorem startDaemon_pid_reclaim:
  "(opt_pidFile opts \<noteq> [] \<and> opt_logFile opts \<noteq> [] \<and>
    files w (opt_pidFile opts) = Some body \<and>
    parseInt (trim body) = Num p \<and> p > 1 \<and> old_alive (obs k) p \<longrightarrow>
      startDaemon obs k opts w =
        (Inr \<lparr>status = AlreadyRunning, started_pid = p, alive = True, ready = Some True\<rparr>,
         w\<lparr>trace := trace w @
              [EnsureFileDir (opt_pidFile opts), EnsureFileDir (opt_logFile opts), ConsoleLog]\<rparr>)) \<and>
   (opt_pidFile opts \<noteq> [] \<and> opt_logFile opts \<noteq> [] \<and>
    files w (opt_pidFile opts) = Some body \<and>
    \<not> live_pid_recorded (obs k) (opt_pidFile opts) w \<and>
    resolveBinary (obs k) (opt_binary opts) = Some binPath \<longrightarrow>
      prefix (trace w @
              [EnsureFileDir (opt_pidFile opts), EnsureFileDir (opt_logFile opts),
               RemoveFile (opt_pidFile opts), OpenAppend (opt_logFile opts),
               Spawn binPath (opt_args opts),
               WriteFile (opt_pidFile opts) (string_of_int (child_pid (obs k)) @ [CHR 0x0A]),
               Sleep STARTUP_HEALTHCHECK_DELAY_MS])
        (trace (snd (startDaemon obs k opts w)))) \<and>
   (opt_pidFile opts \<noteq> [] \<and> opt_logFile opts \<noteq> [] \<and>
    files w (opt_pidFile opts) = Some body \<and>
    \<not> live_pid_recorded (obs k) (opt_pidFile opts) w \<and>
    resolveBinary (obs k) (opt_binary opts) = None \<longrightarrow>
      startDaemon obs k opts w =
        (Inl (Error (''Binary not found: '' @ opt_binary opts)),
         w\<lparr>files := (files w)(opt_pidFile opts := None),
           trace := trace w @
              [EnsureFileDir (opt_pidFile opts), EnsureFileDir (opt_logFile opts),
               RemoveFile (opt_pidFile opts)]\<rparr>))"
proof -
  have a: "startDaemon obs k opts w =
        (Inr \<lparr>status = AlreadyRunning, started_pid = p, alive = True, ready = Some True\<rparr>,
         w\<lparr>trace := trace w @
              [EnsureFileDir (opt_pidFile opts), EnsureFileDir (opt_logFile opts), ConsoleLog]\<rparr>)"
    if h: "opt_pidFile opts \<noteq> []" "opt_logFile opts \<noteq> []"
      "files w (opt_pidFile opts) = Some body"
      "parseInt (trim body) = Num p" "p > 1" "old_alive (obs k) p"
  proof -
    have l: "live_pid_recorded (obs k) (opt_pidFile opts) w"
      using h by (simp add: live_pid_recorded_def isFinite_def gt_one_def int_of_number_def)
    have r: "recorded_pid (opt_pidFile opts) w = p"
      using h by (simp add: recorded_pid_def int_of_number_def)
    show ?thesis using h(1,2) l r by (simp add: startDaemon_already_running)
  qed
  have b: "prefix (trace w @
              [EnsureFileDir (opt_pidFile opts), EnsureFileDir (opt_logFile opts),
               RemoveFile (opt_pidFile opts), OpenAppend (opt_logFile opts),
               Spawn binPath (opt_args opts),
               WriteFile (opt_pidFile opts) (string_of_int (child_pid (obs k)) @ [CHR 0x0A]),
               Sleep STARTUP_HEALTHCHECK_DELAY_MS])
        (trace (snd (startDaemon obs k opts w)))"
    if h: "opt_pidFile opts \<noteq> []" "opt_logFile opts \<noteq> []"
      "files w (opt_pidFile opts) = Some body"
      "\<not> live_pid_recorded (obs k) (opt_pidFile opts) w"
      "resolveBinary (obs k) (opt_binary opts) = Some binPath"
    using startDaemon_spawn_trace_prefix [of opts obs k w binPath] h
    by (simp add: spawned_world_def reclaimed_world_def)
  have c: "startDaemon obs k opts w =
        (Inl (Error (''Binary not found: '' @ opt_binary opts)),
         w\<lparr>files := (files w)(opt_pidFile opts := None),
           trace := trace w @
              [EnsureFileDir (opt_pidFile opts), EnsureFileDir (opt_logFile opts),
               RemoveFile (opt_pidFile opts)]\<rparr>)"
    if h: "opt_pidFile opts \<noteq> []" "opt_logFile opts \<noteq> []"
      "files w (opt_pidFile opts) = Some body"
      "\<not> live_pid_recorded (obs k) (opt_pidFile opts) w"
      "resolveBinary (obs k) (opt_binary opts) = None"
    using h by (simp add: startDaemon_spawn_path reclaimed_world_def)
  show ?thesis using a b c by blast
qed

theorem startDaemon_pid_reclaim_witness:
  "startDaemon (\<lambda>k. ex_attempt (\<lambda>p. p = 4242) 5000 True True True) 0 (ex_opts Never)
      (ex_world (Some ''4242\<newline>'')) =
     (Inr \<lparr>status = AlreadyRunning, started_pid = 4242, alive = True, ready = Some True\<rparr>,
      \<lparr>files = (\<lambda>p. if p = ''/ws/caddy.pid'' then Some ''4242\<newline>'' else None),
       trace = [EnsureFileDir ''/ws/caddy.pid'', EnsureFileDir ''/ws/logs/caddy.log'', ConsoleLog]\<rparr>) \<and>
   prefix [EnsureFileDir ''/ws/caddy.pid'', EnsureFileDir ''/ws/logs/caddy.log'',
           RemoveFile ''/ws/caddy.pid'', OpenAppend ''/ws/logs/caddy.log'',
           Spawn ''/usr/bin/caddy'' [''run''], WriteFile ''/ws/caddy.pid'' ''5000\<newline>'',
           Sleep 50]
     (trace (snd (startDaemon (\<lambda>k. ex_attempt (\<lambda>p. False) 5000 True True True) 0 (ex_opts Never)
        (ex_world (Some ''99999\<newline>'')))))"
  using startDaemon_pid_reclaim [of "ex_opts Never" "ex_world (Some ''4242\<newline>'')"
          "''4242\<newline>''" 4242 "\<lambda>k. ex_attempt (\<lambda>p. p = 4242) 5000 True True True" 0]
        startDaemon_pid_reclaim [of "ex_opts Never" "ex_world (Some ''99999\<newline>'')"
          "''99999\<newline>''" _ "\<lambda>k. ex_attempt (\<lambda>p. False) 5000 True True True" 0
          "''/usr/bin/caddy''"]
  by (simp add: ex_defs live_pid_recorded_def num_defs nat_digits.simps STARTUP_HEALTHCHECK_DELAY_MS_def)

text \<open>
  C3 as stated fails: the PID-file names PID 1, which is alive, yet the call does not
  return already-running; it removes the file, spawns and returns started.
\<close>

theorem startDaemon_pid_one_counterexample:
  "files (ex_world (Some ''1'')) ''/ws/caddy.pid'' = Some ''1'' \<and>
   parseInt (trim ''1'') = Num 1 \<and>
   old_alive (ex_attempt (\<lambda>p. True) 4242 True True True) 1 \<and>
   fst (startDaemon (\<lambda>k. ex_attempt (\<lambda>p. True) 4242 True True True) 0 (ex_opts Never)
          (ex_world (Some ''1''))) =
     Inr \<lparr>status = Started, started_pid = 4242, alive = True, ready = Some True\<rparr> \<and>
   trace (snd (startDaemon (\<lambda>k. ex_attempt (\<lambda>p. True) 4242 True True True) 0 (ex_opts Never)
          (ex_world (Some ''1'')))) =
     [EnsureFileDir ''/ws/caddy.pid'', EnsureFileDir ''/ws/logs/caddy.log'',
      RemoveFile ''/ws/caddy.pid'', OpenAppend ''/ws/logs/caddy.log'',
      Spawn ''/usr/bin/caddy'' [''run''], WriteFile ''/ws/caddy.pid'' ''4242\<newline>'',
      Sleep 50]"
  by (simp add: startDaemon.simps [of _ 0] ex_defs sd_defs num_defs nat_digits.simps)

lemma stopByPidFile_valid:
  assumes "files w pidFile = Some body" "parseInt (trim body) = Num p" "p > 1"
  shows "stopByPidFile isWin os pidFile gentleMs killGroup w =
     (\<lparr>stopped = True, stopped_pid = Some p, reason = None, error_message = None\<rparr>,
      rm pidFile (snd (killProcessTree isWin os p gentleMs (\<not> isWin \<and> killGroup) w)))"
  using assms
  by (cases isWin)
     (simp_all add: stopByPidFile_def readFile_def isFinite_def le_one_def int_of_number_def
        killProcessTree_trace_unix killProcessTree_trace_win Let_def)

lemma startDaemon_never_not_already_running:
  assumes "opt_restartPolicy opts = Never" "files w (opt_pidFile opts) = None"
    and "fst (startDaemon obs k opts w) = Inr r"
  shows "status r \<noteq> AlreadyRunning"
proof (cases "opt_pidFile opts = [] \<or> opt_logFile opts = []")
  case True
  then show ?thesis using assms by (auto simp: startDaemon.simps [of obs k opts w])
next
  case False
  then have ne: "opt_pidFile opts \<noteq> []" "opt_logFile opts \<noteq> []" by simp_all
  have nl: "\<not> live_pid_recorded (obs k) (opt_pidFile opts) w"
    using assms(2) by (simp add: live_pid_recorded_def)
  show ?thesis using assms ne nl
    by (auto simp: startDaemon_spawn_path split: option.splits sum.splits if_splits)
qed

text \<open>
  C7 (as the code has it): when stopByPidFile finds a PID greater than 1 in the file it
  returns stopped = true with that PID and the PID-file is absent afterwards. A startDaemon
  that follows on the same PID-file, called with a log file, therefore finds nothing at its
  stale-PID check and goes on to the spawn: it throws "Binary not found" when the binary
  does not resolve, returns failed when the child is not alive after the start-up sleep,
  throws the probe's error when a readiness probe rejects, returns what the single retry
  returns when readiness fails under restartPolicy on-failure with the child dead before
  minUptimeMs, and returns started with the PID of the new child in every other case;
  called without a log file it throws "startDaemon requires pidFile and logFile".
  With restartPolicy never it never returns already-running. When the PID-file does not
  exist stopByPidFile returns stopped = false with reason no-pidfile and does nothing to
  the world.
\<close>

theorem stopByPidFile_removes_pid_file:
  "(files w pidFile = Some body \<and> parseInt (trim body) = Num p \<and> p > 1 \<longrightarrow>
      fst (stopByPidFile isWin os pidFile gentleMs killGroup w) =
        \<lparr>stopped = True, stopped_pid = Some p, reason = None, error_message = None\<rparr> \<and>
      files (snd (stopByPidFile isWin os pidFile gentleMs killGroup w)) pidFile = None \<and>
      (opt_pidFile opts = pidFile \<and> opt_restartPolicy opts = Never \<and>
       fst (startDaemon obs k opts (snd (stopByPidFile isWin os pidFile gentleMs killGroup w))) = Inr r \<longrightarrow>
         status r \<noteq> AlreadyRunning) \<and>
      (opt_pidFile opts = pidFile \<and> pidFile \<noteq> [] \<and> opt_logFile opts \<noteq> [] \<and>
       resolveBinary (obs k) (opt_binary opts) = Some binPath \<and>
       alive_at_healthcheck (obs k) \<and>
       waitReadiness (obs k) (opt_readiness opts) = Inr ok \<and>
       (ok \<or> opt_restartPolicy opts = Never \<or> alive_after_readiness (obs k) \<or>
        opt_minUptimeMs opts \<le> now_after_readiness (obs k) - startedAt (obs k)) \<longrightarrow>
         fst (startDaemon obs k opts (snd (stopByPidFile isWin os pidFile gentleMs killGroup w))) =
           Inr \<lparr>status = Started, started_pid = child_pid (obs k), alive = True, ready = Some ok\<rparr>) \<and>
      (opt_pidFile opts = pidFile \<and> pidFile \<noteq> [] \<and> opt_logFile opts \<noteq> [] \<longrightarrow>
         fst (startDaemon obs k opts (snd (stopByPidFile isWin os pidFile gentleMs killGroup w))) =
           (case resolveBinary (obs k) (opt_binary opts) of
              None \<Rightarrow> Inl (Error (''Binary not found: '' @ opt_binary opts))
            | Some path \<Rightarrow>
                if \<not> alive_at_healthcheck (obs k)
                then Inr \<lparr>status = Failed, started_pid = child_pid (obs k), alive = False, ready = None\<rparr>
                else
                  (case waitReadiness (obs k) (opt_readiness opts) of
                     Inl e \<Rightarrow> Inl e
                   | Inr rdy \<Rightarrow>
                       if \<not> rdy \<and> opt_restartPolicy opts = OnFailure \<and>
                          \<not> alive_after_readiness (obs k) \<and>
                          now_after_readiness (obs k) - startedAt (obs k) < opt_minUptimeMs opts
                       then fst (startDaemon obs (Suc k) (opts\<lparr>opt_restartPolicy := Never\<rparr>)
                                  (emit ConsoleWarn
                                     (spawned_world (obs k) opts path
                                        (snd (stopByPidFile isWin os pidFile gentleMs killGroup w)))))
                       else Inr \<lparr>status = Started, started_pid = child_pid (obs k),
                                  alive = True, ready = Some rdy\<rparr>))) \<and>
      (opt_pidFile opts = pidFile \<and> (pidFile = [] \<or> opt_logFile opts = []) \<longrightarrow>
         fst (startDaemon obs k opts (snd (stopByPidFile isWin os pidFile gentleMs killGroup w))) =
           Inl (Error ''startDaemon requires pidFile and logFile''))) \<and>
   (files w pidFile = None \<longrightarrow>
      stopByPidFile isWin os pidFile gentleMs killGroup w =
        (\<lparr>stopped = False, stopped_pid = None, reason = Some ''no-pidfile'', error_message = None\<rparr>, w))"
proof -
  let ?w' = "snd (stopByPidFile isWin os pidFile gentleMs killGroup w)"
  have none: "stopByPidFile isWin os pidFile gentleMs killGroup w =
        (\<lparr>stopped = False, stopped_pid = None, reason = Some ''no-pidfile'', error_message = None\<rparr>, w)"
    if "files w pidFile = None"
    using that by (simp add: stopByPidFile_def readFile_def stop_catch_def error_code_def)
  {
    assume h: "files w pidFile = Some body" "parseInt (trim body) = Num p" "p > 1"
    have a: "fst (stopByPidFile isWin os pidFile gentleMs killGroup w) =
        \<lparr>stopped = True, stopped_pid = Some p, reason = None, error_message = None\<rparr>"
      using stopByPidFile_valid [OF h] by simp
    have b: "files ?w' pidFile = None"
      using stopByPidFile_valid [OF h] by simp
    have c: "status r \<noteq> AlreadyRunning"
      if "opt_pidFile opts = pidFile" "opt_restartPolicy opts = Never"
         "fst (startDaemon obs k opts ?w') = Inr r"
      using startDaemon_never_not_already_running [of opts ?w' obs k r] that b by simp
    have d: "fst (startDaemon obs k opts ?w') =
           Inr \<lparr>status = Started, started_pid = child_pid (obs k), alive = True, ready = Some ok\<rparr>"
      if t: "opt_pidFile opts = pidFile" "pidFile \<noteq> []" "opt_logFile opts \<noteq> []"
         "resolveBinary (obs k) (opt_binary opts) = Some binPath"
         "alive_at_healthcheck (obs k)"
         "waitReadiness (obs k) (opt_readiness opts) = Inr ok"
         "ok \<or> opt_restartPolicy opts = Never \<or> alive_after_readiness (obs k) \<or>
          opt_minUptimeMs opts \<le> now_after_readiness (obs k) - startedAt (obs k)"
    proof -
      have nl: "\<not> live_pid_recorded (obs k) (opt_pidFile opts) ?w'"
        using b t(1) by (simp add: live_pid_recorded_def)
      show ?thesis using t nl by (auto simp: startDaemon_spawn_path)
    qed
    have e: "fst (startDaemon obs k opts ?w') =
           (case resolveBinary (obs k) (opt_binary opts) of
              None \<Rightarrow> Inl (Error (''Binary not found: '' @ opt_binary opts))
            | Some path \<Rightarrow>
                if \<not> alive_at_healthcheck (obs k)
                then Inr \<lparr>status = Failed, started_pid = child_pid (obs k), alive = False, ready = None\<rparr>
                else
                  (case waitReadiness (obs k) (opt_readiness opts) of
                     Inl e \<Rightarrow> Inl e
                   | Inr rdy \<Rightarrow>
                       if \<not> rdy \<and> opt_restartPolicy opts = OnFailure \<and>
                          \<not> alive_after_readiness (obs k) \<and>
                          now_after_readiness (obs k) - startedAt (obs k) < opt_minUptimeMs opts
                       then fst (startDaemon obs (Suc k) (opts\<lparr>opt_restartPolicy := Never\<rparr>)
                                  (emit ConsoleWarn (spawned_world (obs k) opts path ?w')))
                       else Inr \<lparr>status = Started, started_pid = child_pid (obs k),
                                  alive = True, ready = Some rdy\<rparr>))"
      if t: "opt_pidFile opts = pidFile" "pidFile \<noteq> []" "opt_logFile opts \<noteq> []"
    proof -
      have nl: "\<not> live_pid_recorded (obs k) (opt_pidFile opts) ?w'"
        using b t(1) by (simp add: live_pid_recorded_def)
      have ne: "opt_pidFile opts \<noteq> []" using t by simp
      show ?thesis
        by (simp add: startDaemon_spawn_path [of opts obs k ?w', OF ne t(3) nl]
              split: option.splits sum.splits)
    qed
    have g: "fst (startDaemon obs k opts ?w') =
           Inl (Error ''startDaemon requires pidFile and logFile'')"
      if "opt_pidFile opts = pidFile" "pidFile = [] \<or> opt_logFile opts = []"
      using that by (simp add: startDaemon.simps)
    note a b c d e g
  }
  then show ?thesis using none by blast
qed

theorem stopByPidFile_removes_pid_file_witness:
  "stopByPidFile False ex_os ''/ws/caddy.pid'' 100 True (ex_world (Some ''4242\<newline>'')) =
     (\<lparr>stopped = True, stopped_pid = Some 4242, reason = None, error_message = None\<rparr>,
      \<lparr>files = (\<lambda>p. None),
       trace = [Signal (- 4242) SIGTERM, Signal 4242 SIGTERM, Sleep 100,
                Signal (- 4242) SIGKILL, Signal 4242 SIGKILL, RemoveFile ''/ws/caddy.pid'']\<rparr>) \<and>
   fst (startDaemon (\<lambda>k. ex_attempt (\<lambda>p. True) 4300 True True True) 0 (ex_opts Never)
          (snd (stopByPidFile False ex_os ''/ws/caddy.pid'' 100 True (ex_world (Some ''4242\<newline>''))))) =
     Inr \<lparr>status = Started, started_pid = 4300, alive = True, ready = Some True\<rparr> \<and>
   fst (startDaemon (\<lambda>k. (ex_attempt (\<lambda>p. True) 4300 True True True)\<lparr>custom_probe := Inl (Error ''boom'')\<rparr>) 0
          ((ex_opts Never)\<lparr>opt_readiness :=
             \<lparr>rd_http = [], rd_port = [], rd_log = None, rd_custom = True\<rparr>\<rparr>)
          (snd (stopByPidFile False ex_os ''/ws/caddy.pid'' 100 True (ex_world (Some ''4242\<newline>''))))) =
     Inl (Error ''boom'') \<and>
   fst (startDaemon (\<lambda>k. (ex_attempt (\<lambda>p. True) 4300 True True True)\<lparr>path_lookup := (\<lambda>b. [])\<rparr>) 0
          (ex_opts Never)
          (snd (stopByPidFile False ex_os ''/ws/caddy.pid'' 100 True (ex_world (Some ''4242\<newline>''))))) =
     Inl (Error ''Binary not found: caddy'') \<and>
   stopByPidFile False ex_os ''/ws/caddy.pid'' 100 True (ex_world None) =
     (\<lparr>stopped = False, stopped_pid = None, reason = Some ''no-pidfile'', error_message = None\<rparr>,
      ex_world None)"
proof -
  let ?w = "ex_world (Some ''4242\<newline>'')"
  let ?obs = "\<lambda>k::nat. ex_attempt (\<lambda>p. True) 4300 True True True"
  let ?boom = "\<lambda>k::nat. (ex_attempt (\<lambda>p. True) 4300 True True True)\<lparr>custom_probe := Inl (Error ''boom'')\<rparr>"
  let ?nobin = "\<lambda>k::nat. (ex_attempt (\<lambda>p. True) 4300 True True True)\<lparr>path_lookup := (\<lambda>b. [])\<rparr>"
  let ?custom = "(ex_opts Never)\<lparr>opt_readiness :=
             \<lparr>rd_http = [], rd_port = [], rd_log = None, rd_custom = True\<rparr>\<rparr>"
  let ?r = "\<lparr>status = Started, started_pid = 4300, alive = True, ready = Some True\<rparr>"
  have h1: "files ?w ''/ws/caddy.pid'' = Some ''4242\<newline>'' \<and>
      parseInt (trim ''4242\<newline>'') = Num 4242 \<and> (4242::int) > 1"
    by (simp add: ex_world_def num_defs)
  have h2: "opt_pidFile (ex_opts Never) = ''/ws/caddy.pid'' \<and> ''/ws/caddy.pid'' \<noteq> [] \<and>
      opt_logFile (ex_opts Never) \<noteq> [] \<and>
      resolveBinary (?obs 0) (opt_binary (ex_opts Never)) = Some ''/usr/bin/caddy'' \<and>
      alive_at_healthcheck (?obs 0) \<and>
      waitReadiness (?obs 0) (opt_readiness (ex_opts Never)) = Inr True \<and>
      (True \<or> opt_restartPolicy (ex_opts Never) = Never \<or> alive_after_readiness (?obs 0) \<or>
       opt_minUptimeMs (ex_opts Never) \<le> now_after_readiness (?obs 0) - startedAt (?obs 0))"
    by (simp add: ex_defs waitReadiness_def)
  have c: "child_pid (?obs 0) = 4300"
    by (simp add: ex_defs)
  have a: "fst (startDaemon ?obs 0 (ex_opts Never)
          (snd (stopByPidFile False ex_os ''/ws/caddy.pid'' 100 True ?w))) =
     Inr \<lparr>status = Started, started_pid = 4300, alive = True, ready = Some True\<rparr>"
    using stopByPidFile_removes_pid_file [of ?w "''/ws/caddy.pid''" "''4242\<newline>''" 4242
            False ex_os 100 True "ex_opts Never" ?obs 0 ?r "''/usr/bin/caddy''" True] h1 h2
    unfolding c by blast
  have h3: "opt_pidFile ?custom = ''/ws/caddy.pid'' \<and> ''/ws/caddy.pid'' \<noteq> [] \<and>
      opt_logFile ?custom \<noteq> []"
    by (simp add: ex_defs)
  have e1: "fst (startDaemon ?boom 0 ?custom
          (snd (stopByPidFile False ex_os ''/ws/caddy.pid'' 100 True ?w))) =
      (case resolveBinary (?boom 0) (opt_binary ?custom) of
         None \<Rightarrow> Inl (Error (''Binary not found: '' @ opt_binary ?custom))
       | Some path \<Rightarrow>
           if \<not> alive_at_healthcheck (?boom 0)
           then Inr \<lparr>status = Failed, started_pid = child_pid (?boom 0), alive = False, ready = None\<rparr>
           else
             (case waitReadiness (?boom 0) (opt_readiness ?custom) of
                Inl e \<Rightarrow> Inl e
              | Inr rdy \<Rightarrow>
                  if \<not> rdy \<and> opt_restartPolicy ?custom = OnFailure \<and>
                     \<not> alive_after_readiness (?boom 0) \<and>
                     now_after_readiness (?boom 0) - startedAt (?boom 0) < opt_minUptimeMs ?custom
                  then fst (startDaemon ?boom (Suc 0) (?custom\<lparr>opt_restartPolicy := Never\<rparr>)
                             (emit ConsoleWarn
                                (spawned_world (?boom 0) ?custom path
                                   (snd (stopByPidFile False ex_os ''/ws/caddy.pid'' 100 True ?w)))))
                  else Inr \<lparr>status = Started, started_pid = child_pid (?boom 0),
                             alive = True, ready = Some rdy\<rparr>))"
    using stopByPidFile_removes_pid_file [of ?w "''/ws/caddy.pid''" "''4242\<newline>''" 4242
            False ex_os 100 True ?custom ?boom 0 ?r "''/usr/bin/caddy''" True] h1 h3
    by blast
  have e: "fst (startDaemon ?boom 0 ?custom
          (snd (stopByPidFile False ex_os ''/ws/caddy.pid'' 100 True ?w))) = Inl (Error ''boom'')"
    unfolding e1 by (simp add: ex_defs waitReadiness_def)
  have f1: "fst (startDaemon ?nobin 0 (ex_opts Never)
          (snd (stopByPidFile False ex_os ''/ws/caddy.pid'' 100 True ?w))) =
      (case resolveBinary (?nobin 0) (opt_binary (ex_opts Never)) of
         None \<Rightarrow> Inl (Error (''Binary not found: '' @ opt_binary (ex_opts Never)))
       | Some path \<Rightarrow>
           if \<not> alive_at_healthcheck (?nobin 0)
           then Inr \<lparr>status = Failed, started_pid = child_pid (?nobin 0), alive = False, ready = None\<rparr>
           else
             (case waitReadiness (?nobin 0) (opt_readiness (ex_opts Never)) of
                Inl e \<Rightarrow> Inl e
              | Inr rdy \<Rightarrow>
                  if \<not> rdy \<and> opt_restartPolicy (ex_opts Never) = OnFailure \<and>
                     \<not> alive_after_readiness (?nobin 0) \<and>
                     now_after_readiness (?nobin 0) - startedAt (?nobin 0) < opt_minUptimeMs (ex_opts Never)
                  then fst (startDaemon ?nobin (Suc 0) ((ex_opts Never)\<lparr>opt_restartPolicy := Never\<rparr>)
                             (emit ConsoleWarn
                                (spawned_world (?nobin 0) (ex_opts Never) path
                                   (snd (stopByPidFile False ex_os ''/ws/caddy.pid'' 100 True ?w)))))
                  else Inr \<lparr>status = Started, started_pid = child_pid (?nobin 0),
                             alive = True, ready = Some rdy\<rparr>))"
    using stopByPidFile_removes_pid_file [of ?w "''/ws/caddy.pid''" "''4242\<newline>''" 4242
            False ex_os 100 True "ex_opts Never" ?nobin 0 ?r "''/usr/bin/caddy''" True] h1 h2
    by blast
  have f: "fst (startDaemon ?nobin 0 (ex_opts Never)
          (snd (stopByPidFile False ex_os ''/ws/caddy.pid'' 100 True ?w))) =
      Inl (Error ''Binary not found: caddy'')"
    unfolding f1 by (simp add: ex_defs)
  have b: "stopByPidFile False ex_os ''/ws/caddy.pid'' 100 True ?w =
     (\<lparr>stopped = True, stopped_pid = Some 4242, reason = None, error_message = None\<rparr>,
      \<lparr>files = (\<lambda>p. None),
       trace = [Signal (- 4242) SIGTERM, Signal 4242 SIGTERM, Sleep 100,
                Signal (- 4242) SIGKILL, Signal 4242 SIGKILL, RemoveFile ''/ws/caddy.pid'']\<rparr>)"
    by (simp add: stopByPidFile_def readFile_def killProcessTree_trace_unix ex_world_def num_defs
          fun_eq_iff)
  have d: "stopByPidFile False ex_os ''/ws/caddy.pid'' 100 True (ex_world None) =
     (\<lparr>stopped = False, stopped_pid = None, reason = Some ''no-pidfile'', error_message = None\<rparr>,
      ex_world None)"
    by (simp add: stopByPidFile_def readFile_def stop_catch_def error_code_def ex_world_def)
  show ?thesis using a e f b d by simp
qed

text \<open>
  C7 as stated fails: stopByPidFile finds PID 4242 and removes the file; the startDaemon
  that follows spawns a child that is dead after the start-up sleep and returns failed,
  not started.
\<close>

theorem stopByPidFile_then_start_counterexample:
  "fst (stopByPidFile False ex_os ''/ws/caddy.pid'' 100 True (ex_world (Some ''4242\<newline>''))) =
     \<lparr>stopped = True, stopped_pid = Some 4242, reason = None, error_message = None\<rparr> \<and>
   files (snd (stopByPidFile False ex_os ''/ws/caddy.pid'' 100 True (ex_world (Some ''4242\<newline>''))))
     ''/ws/caddy.pid'' = None \<and>
   fst (startDaemon (\<lambda>k. ex_attempt (\<lambda>p. False) 4300 False False False) 0 (ex_opts Never)
          (snd (stopByPidFile False ex_os ''/ws/caddy.pid'' 100 True (ex_world (Some ''4242\<newline>''))))) =
     Inr \<lparr>status = Failed, started_pid = 4300, alive = False, ready = None\<rparr>"
  by (simp add: startDaemon.simps [of _ 0] ex_defs sd_defs num_defs nat_digits.simps
        stopByPidFile_def readFile_def killProcessTree_trace_unix)

theorem startDaemon_retry_once_witness:
  "startDaemon (\<lambda>k. ex_attempt (\<lambda>p. False) (4242 + int k) True (k > 0) False) 0
      (ex_opts OnFailure) (ex_world None) =
     (Inr \<lparr>status = Started, started_pid = 4243, alive = True, ready = Some True\<rparr>,
      \<lparr>files = (\<lambda>p. if p = ''/ws/caddy.pid'' then Some ''4243\<newline>'' else None),
       trace = [EnsureFileDir ''/ws/caddy.pid'', EnsureFileDir ''/ws/logs/caddy.log'',
                OpenAppend ''/ws/logs/caddy.log'', Spawn ''/usr/bin/caddy'' [''run''],
                WriteFile ''/ws/caddy.pid'' ''4242\<newline>'', Sleep 50, ConsoleWarn,
                EnsureFileDir ''/ws/caddy.pid'', EnsureFileDir ''/ws/logs/caddy.log'',
                RemoveFile ''/ws/caddy.pid'',
                OpenAppend ''/ws/logs/caddy.log'', Spawn ''/usr/bin/caddy'' [''run''],
                WriteFile ''/ws/caddy.pid'' ''4243\<newline>'', Sleep 50]\<rparr>) \<and>
   startDaemon (\<lambda>k. ex_attempt (\<lambda>p. False) 4242 True False True) 0
      (ex_opts OnFailure) (ex_world None) =
     (Inr \<lparr>status = Started, started_pid = 4242, alive = True, ready = Some False\<rparr>,
      \<lparr>files = (\<lambda>p. if p = ''/ws/caddy.pid'' then Some ''4242\<newline>'' else None),
       trace = [EnsureFileDir ''/ws/caddy.pid'', EnsureFileDir ''/ws/logs/caddy.log'',
                OpenAppend ''/ws/logs/caddy.log'', Spawn ''/usr/bin/caddy'' [''run''],
                WriteFile ''/ws/caddy.pid'' ''4242\<newline>'', Sleep 50]\<rparr>)"
  using startDaemon_retry_once [of "ex_opts OnFailure"
          "\<lambda>k. ex_attempt (\<lambda>p. False) (4242 + int k) True (k > 0) False" 0 "ex_world None"
          "''/usr/bin/caddy''"]
        startDaemon_retry_once [of "ex_opts OnFailure"
          "\<lambda>k. ex_attempt (\<lambda>p. False) 4242 True False True" 0 "ex_world None"
          "''/usr/bin/caddy''"]
  by (auto simp: startDaemon.simps [of _ "Suc 0"] ex_defs sd_defs num_defs nat_digits.simps
        live_pid_recorded_def spawned_world_def reclaimed_world_def fun_eq_iff)

theorem killProcessTree_two_phase_witness:
  "killProcessTree False ex_os 4242 100 True (ex_world (Some ''4242\<newline>'')) =
     (Inr (), \<lparr>files = (\<lambda>p. if p = ''/ws/caddy.pid'' then Some ''4242\<newline>'' else None),
               trace = [Signal (- 4242) SIGTERM, Signal 4242 SIGTERM, Sleep 100,
                        Signal (- 4242) SIGKILL, Signal 4242 SIGKILL]\<rparr>) \<and>
   killProcessTree False ex_os 4242 100 False (ex_world None) =
     (Inr (), \<lparr>files = (\<lambda>p. None), trace = [Signal 4242 SIGTERM, Sleep 100, Signal 4242 SIGKILL]\<rparr>)"
  using killProcessTree_two_phase [of ex_os 4242 100 True "ex_world (Some ''4242\<newline>'')"]
        killProcessTree_two_phase [of ex_os 4242 100 False "ex_world None"]
  by (simp add: ex_defs)

theorem stopByPidFile_invalid_pid_witness:
  "stopByPidFile False ex_os ''/ws/caddy.pid'' 100 True (ex_world (Some ''1\<newline>'')) =
     (\<lparr>stopped = False, stopped_pid = None, reason = None,
       error_message = Some ''invalid pid in /ws/caddy.pid''\<rparr>, ex_world (Some ''1\<newline>'')) \<and>
   stopByPidFile False ex_os ''/ws/caddy.pid'' 100 True (ex_world (Some ''0'')) =
     (\<lparr>stopped = False, stopped_pid = None, reason = None,
       error_message = Some ''invalid pid in /ws/caddy.pid''\<rparr>, ex_world (Some ''0'')) \<and>
   stopByPidFile False ex_os ''/ws/caddy.pid'' 100 True (ex_world (Some ''-4242'')) =
     (\<lparr>stopped = False, stopped_pid = None, reason = None,
       error_message = Some ''invalid pid in /ws/caddy.pid''\<rparr>, ex_world (Some ''-4242'')) \<and>
   stopByPidFile False ex_os ''/ws/caddy.pid'' 100 True (ex_world (Some ''caddy'')) =
     (\<lparr>stopped = False, stopped_pid = None, reason = None,
       error_message = Some ''invalid pid in /ws/caddy.pid''\<rparr>, ex_world (Some ''caddy'')) \<and>
   stopByPidFile False ex_os ''/ws/caddy.pid'' 100 True (ex_world (Some [])) =
     (\<lparr>stopped = False, stopped_pid = None, reason = None,
       error_message = Some ''invalid pid in /ws/caddy.pid''\<rparr>, ex_world (Some []))"
  using stopByPidFile_invalid_pid [of "ex_world (Some ''1\<newline>'')" "''/ws/caddy.pid''" "''1\<newline>''"
          False ex_os 100 True]
        stopByPidFile_invalid_pid [of "ex_world (Some ''0'')" "''/ws/caddy.pid''" "''0''"
          False ex_os 100 True]
        stopByPidFile_invalid_pid [of "ex_world (Some ''-4242'')" "''/ws/caddy.pid''" "''-4242''"
          False ex_os 100 True]
        stopByPidFile_invalid_pid [of "ex_world (Some ''caddy'')" "''/ws/caddy.pid''" "''caddy''"
          False ex_os 100 True]
        stopByPidFile_invalid_pid [of "ex_world (Some [])" "''/ws/caddy.pid''" "[]"
          False ex_os 100 True]
  by (simp add: ex_world_def num_defs)

subsection \<open>Paths and environment resolver\<close>

lemma mkdirSync_keeps [simp]:
  "stderr (mkdirSync p st) = stderr st"
  "pathMisconfigurationWarned (mkdirSync p st) = pathMisconfigurationWarned st"
  by (simp_all add: mkdirSync_def)

lemma create_subdirs_keeps [simp]:
  "stderr (create_subdirs dir subdirs st) = stderr st"
  "pathMisconfigurationWarned (create_subdirs dir subdirs st) = pathMisconfigurationWarned st"
  unfolding create_subdirs_def
  by (induction subdirs arbitrary: st) simp_all

lemma resolveWorkspaceDir_stderr:
  "stderr (snd (resolveWorkspaceDir pe startDir st)) =
     (if \<not> set_and_not_blank (env_or pe ''SANDBOX_DIR'' ''EXECUTION_DIR'') \<and>
         \<not> isGitHubAsdRepo (workspace_location pe st startDir) \<and>
         \<not> pathMisconfigurationWarned st \<and> doubled_asd (workspace_location pe st startDir)
      then stderr st @ [warning_line (workspace_location pe st startDir)]
      else stderr st)"
  by (simp add: resolveWorkspaceDir_def Let_def)

lemma resolveWorkspaceDir_warned:
  "pathMisconfigurationWarned (snd (resolveWorkspaceDir pe startDir st)) =
     (pathMisconfigurationWarned st \<or>
      (\<not> set_and_not_blank (env_or pe ''SANDBOX_DIR'' ''EXECUTION_DIR'') \<and>
       \<not> isGitHubAsdRepo (workspace_location pe st startDir) \<and>
       doubled_asd (workspace_location pe st startDir)))"
  by (auto simp: resolveWorkspaceDir_def Let_def)

lemma resolveWorkspaceDir_inv:
  "warn_inv st \<Longrightarrow> warn_inv (snd (resolveWorkspaceDir pe startDir st))"
  by (auto simp: warn_inv_def resolveWorkspaceDir_stderr resolveWorkspaceDir_warned)

lemma resolveLogPath_snd:
  "stderr (snd (resolveLogPath pe filename st)) = stderr (snd (resolveWorkspaceDir pe (cwd pe) st))"
  "pathMisconfigurationWarned (snd (resolveLogPath pe filename st)) =
     pathMisconfigurationWarned (snd (resolveWorkspaceDir pe (cwd pe) st))"
  by (simp_all add: resolveLogPath_def Let_def split: prod.splits)

lemma resolveBinDir_snd:
  "stderr (snd (resolveBinDir pe st)) = stderr st \<or>
   stderr (snd (resolveBinDir pe st)) = stderr (snd (resolveWorkspaceDir pe (cwd pe) st))"
  "pathMisconfigurationWarned (snd (resolveBinDir pe st)) = pathMisconfigurationWarned st \<and>
     stderr (snd (resolveBinDir pe st)) = stderr st \<or>
   pathMisconfigurationWarned (snd (resolveBinDir pe st)) =
     pathMisconfigurationWarned (snd (resolveWorkspaceDir pe (cwd pe) st)) \<and>
     stderr (snd (resolveBinDir pe st)) = stderr (snd (resolveWorkspaceDir pe (cwd pe) st))"
  by (simp_all add: resolveBinDir_def Let_def split: prod.splits)

lemma run_call_inv: "warn_inv st \<Longrightarrow> warn_inv (run_call c st)"
proof (cases c)
  case (ResolveWorkspaceDir pe startDir)
  then show "warn_inv st \<Longrightarrow> warn_inv (run_call c st)"
    by (simp add: resolveWorkspaceDir_inv)
next
  case (ResolveLogPath pe filename)
  assume i: "warn_inv st"
  show "warn_inv (run_call c st)"
    using resolveWorkspaceDir_inv [OF i, of pe "cwd pe"]
    by (simp add: ResolveLogPath warn_inv_def resolveLogPath_snd)
next
  case (ResolveBinDir pe)
  assume i: "warn_inv st"
  show "warn_inv (run_call c st)"
    using resolveWorkspaceDir_inv [OF i, of pe "cwd pe"] i resolveBinDir_snd(2) [of pe st]
    by (auto simp: ResolveBinDir warn_inv_def)
qed

lemma run_calls_inv: "warn_inv st \<Longrightarrow> warn_inv (run_calls calls st)"
  unfolding run_calls_def
  by (induction calls arbitrary: st) (simp_all add: run_call_inv)

lemma windows_runner_regex_append:
  "windows_runner_regex s \<Longrightarrow> windows_runner_regex (pre @ s)"
  by (induction pre) auto

lemma windows_runner_shape_regex:
  assumes "windows_runner_shape dir"
  shows "windows_runner_regex dir"
proof -
  obtain pre d post where d: "ascii_letter d"
    and dir: "dir = pre @ d # '':'' @ CHR 0x5C # ''a'' @ CHR 0x5C # ''.asd'' @ CHR 0x5C # ''.asd'' @ post"
    using assms unfolding windows_runner_shape_def by blast
  have "windows_runner_at (d # '':'' @ CHR 0x5C # ''a'' @ CHR 0x5C # ''.asd'' @ CHR 0x5C # ''.asd'' @ post)"
    using d by (simp add: windows_runner_at_def any_char_def either_case_def)
  then have "windows_runner_regex (d # '':'' @ CHR 0x5C # ''a'' @ CHR 0x5C # ''.asd'' @ CHR 0x5C # ''.asd'' @ post)"
    by simp
  then show ?thesis
    unfolding dir by (rule windows_runner_regex_append)
qed

lemma resolveWorkspaceDir_fst:
  "fst (resolveWorkspaceDir pe startDir st) =
     (if set_and_not_blank (env_or pe ''SANDBOX_DIR'' ''EXECUTION_DIR'')
      then join [trim (value_of (env_or pe ''SANDBOX_DIR'' ''EXECUTION_DIR'')), ''.asd'', ''workspace'']
      else workspace_location pe st startDir)"
  by (simp add: resolveWorkspaceDir_def Let_def)

text \<open>
  C9: whatever resolver calls a process makes, under whatever environments, the doubled
  \<open>.asd/.asd\<close> warning is written at most once; once the flag is set a call writes nothing;
  and a call whose resolved path contains \<open>/work/.asd/.asd\<close> or has the Windows runner shape
  \<open>D:\a\.asd\.asd\<close> (any drive letter) writes nothing.
\<close>

theorem misconfiguration_warning_once:
  "length (stderr (run_calls calls (fresh_process paths))) \<le> 1 \<and>
   (pathMisconfigurationWarned st \<longrightarrow>
      stderr (snd (resolveWorkspaceDir pe startDir st)) = stderr st) \<and>
   (str_includes (fst (resolveWorkspaceDir pe startDir st)) ''/work/.asd/.asd'' \<or>
    windows_runner_shape (fst (resolveWorkspaceDir pe startDir st)) \<longrightarrow>
      stderr (snd (resolveWorkspaceDir pe startDir st)) = stderr st)"
proof (intro conjI impI)
  have "warn_inv (fresh_process paths)"
    by (simp add: warn_inv_def fresh_process_def)
  then have "warn_inv (run_calls calls (fresh_process paths))"
    by (rule run_calls_inv)
  then show "length (stderr (run_calls calls (fresh_process paths))) \<le> 1"
    by (simp add: warn_inv_def)
next
  assume "pathMisconfigurationWarned st"
  then show "stderr (snd (resolveWorkspaceDir pe startDir st)) = stderr st"
    by (simp add: resolveWorkspaceDir_stderr)
next
  assume h: "str_includes (fst (resolveWorkspaceDir pe startDir st)) ''/work/.asd/.asd'' \<or>
    windows_runner_shape (fst (resolveWorkspaceDir pe startDir st))"
  show "stderr (snd (resolveWorkspaceDir pe startDir st)) = stderr st"
  proof (cases "set_and_not_blank (env_or pe ''SANDBOX_DIR'' ''EXECUTION_DIR'')")
    case True
    then show ?thesis by (simp add: resolveWorkspaceDir_stderr)
  next
    case False
    then have "isGitHubAsdRepo (workspace_location pe st startDir)"
      using h windows_runner_shape_regex [of "workspace_location pe st startDir"]
      by (auto simp: resolveWorkspaceDir_fst isGitHubAsdRepo_def)
    then show ?thesis by (simp add: resolveWorkspaceDir_stderr)
  qed
qed

lemmas path_defs = resolveWorkspaceDir_def workspace_location_def resolveProjectRoot_def
  resolveAsdDir_def env_or_def set_and_not_blank_def value_of_def ex_path_env_def fresh_process_def
  existsSync_def mkdirSync_def create_subdirs_def join_def normalize_def isAbsolute_def dirname_def
  trim_def js_whitespace_def Let_def

lemma self_in_ancestors: "p \<in> set (ancestors p)"
  by (subst ancestors.simps) simp

lemma dirname_in_ancestors: "q \<in> set (ancestors p) \<Longrightarrow> dirname q \<in> set (ancestors p)"
proof (induction p rule: ancestors.induct)
  case (1 p)
  show ?case
  proof (cases "dirname p = p")
    case True
    then have a: "ancestors p = [p]" by (subst ancestors.simps) simp
    then show ?thesis using "1.prems" True by simp
  next
    case False
    have a: "ancestors p = p # ancestors (dirname p)"
      using False by (subst ancestors.simps) simp
    show ?thesis
    proof (cases "q = p")
      case True
      then show ?thesis unfolding a by (simp add: self_in_ancestors)
    next
      case F: False
      then have "q \<in> set (ancestors (dirname p))" using "1.prems" unfolding a by simp
      then have "dirname q \<in> set (ancestors (dirname p))" by (rule "1.IH" [OF False])
      then show ?thesis unfolding a by simp
    qed
  qed
qed

lemma ancestors_exist:
  "parents_exist st \<Longrightarrow> p \<in> fs st \<Longrightarrow> set (ancestors p) \<subseteq> fs st"
proof (induction p rule: ancestors.induct)
  case (1 p)
  show ?case
  proof (cases "dirname p = p")
    case True
    then have "ancestors p = [p]" by (subst ancestors.simps) simp
    then show ?thesis using "1.prems" by simp
  next
    case False
    have a: "ancestors p = p # ancestors (dirname p)"
      using False by (subst ancestors.simps) simp
    have "dirname p \<in> fs st" using "1.prems" by (simp add: parents_exist_def)
    then have "set (ancestors (dirname p)) \<subseteq> fs st"
      using "1.IH" [OF False "1.prems"(1)] by simp
    then show ?thesis unfolding a using "1.prems"(2) by simp
  qed
qed

lemma tree_exists_closed:
  "parents_exist st \<Longrightarrow> existsSync st p \<Longrightarrow> tree_exists st p"
  using ancestors_exist [of st p] by (auto simp: tree_exists_def existsSync_def list_all_iff)

lemma existsSync_mkdirSync: "existsSync (mkdirSync p st) p"
  by (simp add: existsSync_def mkdirSync_def self_in_ancestors)

lemma tree_exists_mkdirSync: "tree_exists (mkdirSync p st) p"
  by (simp add: tree_exists_def existsSync_def mkdirSync_def list_all_iff)

lemma existsSync_mkdirSync_mono: "existsSync st q \<Longrightarrow> existsSync (mkdirSync p st) q"
  by (simp add: existsSync_def mkdirSync_def)

lemma tree_exists_mono:
  "fs st \<subseteq> fs st' \<Longrightarrow> tree_exists st p \<Longrightarrow> tree_exists st' p"
  by (auto simp: tree_exists_def existsSync_def list_all_iff)

lemma parents_exist_mkdirSync: "parents_exist st \<Longrightarrow> parents_exist (mkdirSync p st)"
  by (auto simp: parents_exist_def mkdirSync_def dirname_in_ancestors)

lemma fs_mkdirSync_mono: "fs st \<subseteq> fs (mkdirSync p st)"
  by (auto simp: mkdirSync_def)

lemma create_subdirs_props:
  "fs st \<subseteq> fs (create_subdirs dir subdirs st)"
  "parents_exist st \<Longrightarrow> parents_exist (create_subdirs dir subdirs st)"
  unfolding create_subdirs_def
proof (induction subdirs arbitrary: st)
  case Nil
  { case 1 show ?case by simp }
  { case 2 then show ?case by simp }
next
  case (Cons s subdirs)
  { case 1
    show ?case
      using Cons.IH(1) [of "mkdirSync (join [dir, s]) st"] Cons.IH(1) [of st]
        fs_mkdirSync_mono [of st "join [dir, s]"]
      by auto }
  { case 2
    then show ?case
      using Cons.IH(2) [of "mkdirSync (join [dir, s]) st"] Cons.IH(2) [of st]
        parents_exist_mkdirSync [of st "join [dir, s]"]
      by auto }
qed

lemma create_subdirs_exists:
  "s \<in> set subdirs \<Longrightarrow> existsSync (create_subdirs dir subdirs st) (join [dir, s])"
  unfolding create_subdirs_def
proof (induction subdirs arbitrary: st)
  case Nil
  then show ?case by simp
next
  case (Cons t subdirs)
  let ?st1 = "if \<not> existsSync st (join [dir, t]) then mkdirSync (join [dir, t]) st else st"
  show ?case
  proof (cases "s \<in> set subdirs")
    case True
    then show ?thesis using Cons.IH [of ?st1] by simp
  next
    case False
    then have e: "s = t" using Cons.prems by simp
    have "existsSync ?st1 (join [dir, t])" by (simp add: existsSync_mkdirSync)
    then have "join [dir, t] \<in> fs ?st1" by (simp add: existsSync_def)
    moreover have "fs ?st1 \<subseteq> fs (create_subdirs dir subdirs ?st1)"
      by (rule create_subdirs_props(1))
    ultimately show ?thesis unfolding e
      by (auto simp: existsSync_def create_subdirs_def)
  qed
qed

lemma flag_update_fs [simp]:
  "fs (st\<lparr>pathMisconfigurationWarned := b, stderr := l\<rparr>) = fs st"
  "parents_exist (st\<lparr>pathMisconfigurationWarned := b, stderr := l\<rparr>) = parents_exist st"
  "existsSync (st\<lparr>pathMisconfigurationWarned := b, stderr := l\<rparr>) q = existsSync st q"
  by (simp_all add: parents_exist_def existsSync_def)

lemma flagged_props [simp]:
  "fs (flagged pe startDir st) = fs st"
  "parents_exist (flagged pe startDir st) = parents_exist st"
  "existsSync (flagged pe startDir st) q = existsSync st q"
  by (simp_all add: flagged_def)

lemma resolveWorkspaceDir_snd:
  "snd (resolveWorkspaceDir pe startDir st) =
     (if set_and_not_blank (env_or pe ''SANDBOX_DIR'' ''EXECUTION_DIR'') then
        (if \<not> existsSync st (fst (resolveWorkspaceDir pe startDir st))
         then mkdirSync (fst (resolveWorkspaceDir pe startDir st)) st else st)
      else
        (if \<not> existsSync st (fst (resolveWorkspaceDir pe startDir st))
         then create_subdirs (fst (resolveWorkspaceDir pe startDir st)) [''logs'', ''network'', ''tunnels'']
                (mkdirSync (fst (resolveWorkspaceDir pe startDir st)) (flagged pe startDir st))
         else flagged pe startDir st))"
  by (simp add: resolveWorkspaceDir_def Let_def flagged_def)

lemma resolveWorkspaceDir_fs_mono: "fs st \<subseteq> fs (snd (resolveWorkspaceDir pe startDir st))"
proof -
  let ?d = "fst (resolveWorkspaceDir pe startDir st)"
  have a: "fs st \<subseteq> fs (mkdirSync ?d st)" by (rule fs_mkdirSync_mono)
  have b: "fs st \<subseteq> fs (mkdirSync ?d (flagged pe startDir st))"
    using fs_mkdirSync_mono [of "flagged pe startDir st" ?d] by simp
  have c: "fs (mkdirSync ?d (flagged pe startDir st)) \<subseteq>
      fs (create_subdirs ?d [''logs'', ''network'', ''tunnels''] (mkdirSync ?d (flagged pe startDir st)))"
    by (rule create_subdirs_props(1))
  show ?thesis
    unfolding resolveWorkspaceDir_snd using a b c by auto
qed

lemma resolveWorkspaceDir_parents:
  assumes "parents_exist st"
  shows "parents_exist (snd (resolveWorkspaceDir pe startDir st))"
proof -
  let ?d = "fst (resolveWorkspaceDir pe startDir st)"
  have a: "parents_exist (mkdirSync ?d st)" using assms by (rule parents_exist_mkdirSync)
  have b: "parents_exist (mkdirSync ?d (flagged pe startDir st))"
    using assms by (intro parents_exist_mkdirSync) simp
  have c: "parents_exist
      (create_subdirs ?d [''logs'', ''network'', ''tunnels''] (mkdirSync ?d (flagged pe startDir st)))"
    using b by (rule create_subdirs_props(2))
  show ?thesis
    unfolding resolveWorkspaceDir_snd using a b c assms by simp
qed

lemma resolveWorkspaceDir_created:
  assumes "\<not> existsSync st (fst (resolveWorkspaceDir pe startDir st))"
  shows "tree_exists (snd (resolveWorkspaceDir pe startDir st)) (fst (resolveWorkspaceDir pe startDir st))"
proof -
  let ?d = "fst (resolveWorkspaceDir pe startDir st)"
  have a: "tree_exists (mkdirSync ?d st) ?d" by (rule tree_exists_mkdirSync)
  have b: "tree_exists (mkdirSync ?d (flagged pe startDir st)) ?d" by (rule tree_exists_mkdirSync)
  have c: "tree_exists
      (create_subdirs ?d [''logs'', ''network'', ''tunnels''] (mkdirSync ?d (flagged pe startDir st))) ?d"
    using b create_subdirs_props(1) by (rule tree_exists_mono [rotated])
  show ?thesis
    unfolding resolveWorkspaceDir_snd using a c assms by simp
qed

lemma resolveWorkspaceDir_exists:
  "existsSync (snd (resolveWorkspaceDir pe startDir st)) (fst (resolveWorkspaceDir pe startDir st))"
proof (cases "existsSync st (fst (resolveWorkspaceDir pe startDir st))")
  case True
  then show ?thesis
    using resolveWorkspaceDir_fs_mono [of st pe startDir] by (auto simp: existsSync_def)
next
  case False
  have "tree_exists (snd (resolveWorkspaceDir pe startDir st)) (fst (resolveWorkspaceDir pe startDir st))"
    using False by (rule resolveWorkspaceDir_created)
  then show ?thesis
    using self_in_ancestors [of "fst (resolveWorkspaceDir pe startDir st)"]
    by (auto simp: tree_exists_def list_all_iff)
qed

lemma resolveWorkspaceDir_subdirs:
  assumes "\<not> set_and_not_blank (env_or pe ''SANDBOX_DIR'' ''EXECUTION_DIR'')"
    and "\<not> existsSync st (fst (resolveWorkspaceDir pe startDir st))"
    and "s \<in> set [''logs'', ''network'', ''tunnels'']"
  shows "existsSync (snd (resolveWorkspaceDir pe startDir st))
           (join [fst (resolveWorkspaceDir pe startDir st), s])"
  unfolding resolveWorkspaceDir_snd using assms(1,2) create_subdirs_exists [OF assms(3)]
  by simp

lemma resolveLogPath_snd_state:
  "snd (resolveLogPath pe filename st) =
     (if \<not> existsSync (snd (resolveWorkspaceDir pe (cwd pe) st))
              (join [fst (resolveWorkspaceDir pe (cwd pe) st), ''logs''])
      then mkdirSync (join [fst (resolveWorkspaceDir pe (cwd pe) st), ''logs''])
             (snd (resolveWorkspaceDir pe (cwd pe) st))
      else snd (resolveWorkspaceDir pe (cwd pe) st))"
  by (simp add: resolveLogPath_def Let_def split: prod.splits)

lemma resolveLogPath_parents:
  "parents_exist st \<Longrightarrow> parents_exist (snd (resolveLogPath pe filename st))"
  unfolding resolveLogPath_snd_state
  by (simp add: resolveWorkspaceDir_parents parents_exist_mkdirSync)

lemma resolveLogPath_exists:
  "existsSync (snd (resolveLogPath pe filename st))
     (join [fst (resolveWorkspaceDir pe (cwd pe) st), ''logs''])"
  unfolding resolveLogPath_snd_state by (simp add: existsSync_mkdirSync)

lemma resolveBinDir_snd_state:
  "\<not> set_and_not_blank (env_var pe ''ASD_BIN_DIR'') \<Longrightarrow>
   snd (resolveBinDir pe st) =
     (if getBinLocation pe st = ''workspace'' then
        (if \<not> existsSync (snd (resolveWorkspaceDir pe (cwd pe) st)) (fst (resolveBinDir pe st))
         then mkdirSync (fst (resolveBinDir pe st)) (snd (resolveWorkspaceDir pe (cwd pe) st))
         else snd (resolveWorkspaceDir pe (cwd pe) st))
      else
        (if \<not> existsSync st (fst (resolveBinDir pe st))
         then mkdirSync (fst (resolveBinDir pe st)) st else st))"
  by (simp add: resolveBinDir_def Let_def split: prod.splits)

lemma resolveBinDir_parents:
  "\<not> set_and_not_blank (env_var pe ''ASD_BIN_DIR'') \<Longrightarrow> parents_exist st \<Longrightarrow>
   parents_exist (snd (resolveBinDir pe st))"
  by (simp add: resolveBinDir_snd_state resolveWorkspaceDir_parents parents_exist_mkdirSync)

lemma resolveBinDir_exists:
  "\<not> set_and_not_blank (env_var pe ''ASD_BIN_DIR'') \<Longrightarrow>
   existsSync (snd (resolveBinDir pe st)) (fst (resolveBinDir pe st))"
  by (simp add: resolveBinDir_snd_state existsSync_mkdirSync)

text \<open>
  C5 (as the code has it): resolveWorkspaceDir leaves the directory it returns existing;
  when the directory was missing it is created together with every directory above it and,
  unless a sandbox directory is set, with its subdirectories logs, network and tunnels.
  resolveLogPath leaves the logs directory of the workspace existing and returns the file
  below it. resolveBinDir leaves the directory it returns existing, unless \<^verbatim>\<open>ASD_BIN_DIR\<close>
  is set and not blank: then it returns the trimmed value and creates nothing. In a file
  system where every path that exists has its parent, after each of these calls the
  directory exists together with all the directories above it. All of this holds for every
  environment, so whatever \<^verbatim>\<open>ASD_WORKSPACE_DIR\<close> holds.
\<close>

theorem resolvers_create_tree:
  "existsSync (snd (resolveWorkspaceDir pe startDir st)) (fst (resolveWorkspaceDir pe startDir st)) \<and>
   (\<not> existsSync st (fst (resolveWorkspaceDir pe startDir st)) \<longrightarrow>
      tree_exists (snd (resolveWorkspaceDir pe startDir st)) (fst (resolveWorkspaceDir pe startDir st))) \<and>
   (\<not> existsSync st (fst (resolveWorkspaceDir pe startDir st)) \<and>
    \<not> set_and_not_blank (env_or pe ''SANDBOX_DIR'' ''EXECUTION_DIR'') \<longrightarrow>
      existsSync (snd (resolveWorkspaceDir pe startDir st))
        (join [fst (resolveWorkspaceDir pe startDir st), ''logs'']) \<and>
      existsSync (snd (resolveWorkspaceDir pe startDir st))
        (join [fst (resolveWorkspaceDir pe startDir st), ''network'']) \<and>
      existsSync (snd (resolveWorkspaceDir pe startDir st))
        (join [fst (resolveWorkspaceDir pe startDir st), ''tunnels''])) \<and>
   (parents_exist st \<longrightarrow>
      parents_exist (snd (resolveWorkspaceDir pe startDir st)) \<and>
      tree_exists (snd (resolveWorkspaceDir pe startDir st)) (fst (resolveWorkspaceDir pe startDir st))) \<and>
   fst (resolveLogPath pe filename st) =
     join [join [fst (resolveWorkspaceDir pe (cwd pe) st), ''logs''], filename] \<and>
   existsSync (snd (resolveLogPath pe filename st))
     (join [fst (resolveWorkspaceDir pe (cwd pe) st), ''logs'']) \<and>
   (parents_exist st \<longrightarrow>
      parents_exist (snd (resolveLogPath pe filename st)) \<and>
      tree_exists (snd (resolveLogPath pe filename st))
        (join [fst (resolveWorkspaceDir pe (cwd pe) st), ''logs''])) \<and>
   (if set_and_not_blank (env_var pe ''ASD_BIN_DIR'')
    then resolveBinDir pe st = (trim (value_of (env_var pe ''ASD_BIN_DIR'')), st)
    else existsSync (snd (resolveBinDir pe st)) (fst (resolveBinDir pe st)) \<and>
         (parents_exist st \<longrightarrow>
            parents_exist (snd (resolveBinDir pe st)) \<and>
            tree_exists (snd (resolveBinDir pe st)) (fst (resolveBinDir pe st))))"
proof -
  have a: "existsSync (snd (resolveWorkspaceDir pe startDir st)) (fst (resolveWorkspaceDir pe startDir st))"
    by (rule resolveWorkspaceDir_exists)
  have b: "tree_exists (snd (resolveWorkspaceDir pe startDir st)) (fst (resolveWorkspaceDir pe startDir st))"
    if "\<not> existsSync st (fst (resolveWorkspaceDir pe startDir st))"
    using that by (rule resolveWorkspaceDir_created)
  have c: "existsSync (snd (resolveWorkspaceDir pe startDir st))
        (join [fst (resolveWorkspaceDir pe startDir st), s])"
    if "\<not> existsSync st (fst (resolveWorkspaceDir pe startDir st))"
       "\<not> set_and_not_blank (env_or pe ''SANDBOX_DIR'' ''EXECUTION_DIR'')"
       "s \<in> set [''logs'', ''network'', ''tunnels'']" for s
    using that(2,1,3) by (rule resolveWorkspaceDir_subdirs)
  have d: "parents_exist (snd (resolveWorkspaceDir pe startDir st)) \<and>
      tree_exists (snd (resolveWorkspaceDir pe startDir st)) (fst (resolveWorkspaceDir pe startDir st))"
    if "parents_exist st"
    using resolveWorkspaceDir_parents [OF that, of pe startDir] a tree_exists_closed by blast
  have e: "fst (resolveLogPath pe filename st) =
     join [join [fst (resolveWorkspaceDir pe (cwd pe) st), ''logs''], filename]"
    by (simp add: resolveLogPath_def Let_def split: prod.splits)
  have f: "existsSync (snd (resolveLogPath pe filename st))
     (join [fst (resolveWorkspaceDir pe (cwd pe) st), ''logs''])"
    by (rule resolveLogPath_exists)
  have g: "parents_exist (snd (resolveLogPath pe filename st)) \<and>
      tree_exists (snd (resolveLogPath pe filename st))
        (join [fst (resolveWorkspaceDir pe (cwd pe) st), ''logs''])"
    if "parents_exist st"
    using resolveLogPath_parents [OF that, of pe filename] f tree_exists_closed by blast
  have h: "resolveBinDir pe st = (trim (value_of (env_var pe ''ASD_BIN_DIR'')), st)"
    if "set_and_not_blank (env_var pe ''ASD_BIN_DIR'')"
    using that by (simp add: resolveBinDir_def)
  have i: "existsSync (snd (resolveBinDir pe st)) (fst (resolveBinDir pe st))"
    if "\<not> set_and_not_blank (env_var pe ''ASD_BIN_DIR'')"
    using that by (rule resolveBinDir_exists)
  have j: "parents_exist (snd (resolveBinDir pe st)) \<and>
      tree_exists (snd (resolveBinDir pe st)) (fst (resolveBinDir pe st))"
    if "\<not> set_and_not_blank (env_var pe ''ASD_BIN_DIR'')" "parents_exist st"
    using resolveBinDir_parents [OF that] i [OF that(1)] tree_exists_closed by blast
  show ?thesis
    using a b c [of "''logs''"] c [of "''network''"] c [of "''tunnels''"] d e f g h i j
    by simp
qed

text \<open>
  C5 as stated fails: with \<^verbatim>\<open>ASD_BIN_DIR=/opt/asd/bin\<close> and no such directory, resolveBinDir
  returns the value and creates nothing.
\<close>

theorem resolveBinDir_not_created_counterexample:
  "env_var (ex_path_env [(''ASD_BIN_DIR'', ''/opt/asd/bin'')]) ''ASD_BIN_DIR'' = Some ''/opt/asd/bin'' \<and>
   \<not> existsSync (fresh_process {''/''}) ''/opt/asd/bin'' \<and>
   resolveBinDir (ex_path_env [(''ASD_BIN_DIR'', ''/opt/asd/bin'')]) (fresh_process {''/''}) =
     (''/opt/asd/bin'', fresh_process {''/''}) \<and>
   \<not> existsSync (snd (resolveBinDir (ex_path_env [(''ASD_BIN_DIR'', ''/opt/asd/bin'')])
                         (fresh_process {''/''}))) ''/opt/asd/bin''"
  by (simp add: resolveBinDir_def path_defs)

text \<open>
  Beside the claim: a relative \<^verbatim>\<open>ASD_BIN_DIR\<close> is returned as it is, although the comment
  on \<^verbatim>\<open>resolveBinDir\<close> reads \<open>Absolute path to the bin directory\<close> and the branch for
  \<^verbatim>\<open>ASD_WORKSPACE_DIR\<close> resolves a relative value against the project root.
\<close>

lemma resolveBinDir_relative_value:
  "fst (resolveBinDir (ex_path_env [(''ASD_BIN_DIR'', ''bin'')]) (fresh_process {''/''})) = ''bin'' \<and>
   \<not> isAbsolute ''bin''"
  by (simp add: resolveBinDir_def path_defs)

theorem resolvers_create_tree_witness:
  "fst (resolveWorkspaceDir (ex_path_env []) ''/home/dev/app''
          (fresh_process {''/'', ''/home'', ''/home/dev'', ''/home/dev/app'', ''/home/dev/app/.asd''})) =
     ''/home/dev/app/.asd/workspace'' \<and>
   tree_exists (snd (resolveWorkspaceDir (ex_path_env []) ''/home/dev/app''
          (fresh_process {''/'', ''/home'', ''/home/dev'', ''/home/dev/app'', ''/home/dev/app/.asd''})))
     ''/home/dev/app/.asd/workspace'' \<and>
   existsSync (snd (resolveWorkspaceDir (ex_path_env []) ''/home/dev/app''
          (fresh_process {''/'', ''/home'', ''/home/dev'', ''/home/dev/app'', ''/home/dev/app/.asd''})))
     ''/home/dev/app/.asd/workspace/tunnels'' \<and>
   fst (resolveWorkspaceDir (ex_path_env [(''ASD_WORKSPACE_DIR'', ''data/ws'')]) ''/home/dev/app''
          (fresh_process {''/'', ''/home'', ''/home/dev'', ''/home/dev/app'', ''/home/dev/app/.asd''})) =
     ''/home/dev/app/data/ws'' \<and>
   tree_exists (snd (resolveWorkspaceDir (ex_path_env [(''ASD_WORKSPACE_DIR'', ''data/ws'')]) ''/home/dev/app''
          (fresh_process {''/'', ''/home'', ''/home/dev'', ''/home/dev/app'', ''/home/dev/app/.asd''})))
     ''/home/dev/app/data/ws'' \<and>
   fst (resolveLogPath (ex_path_env []) ''caddy.log''
          (fresh_process {''/'', ''/home'', ''/home/dev'', ''/home/dev/app'', ''/home/dev/app/.asd''})) =
     ''/home/dev/app/.asd/workspace/logs/caddy.log'' \<and>
   tree_exists (snd (resolveLogPath (ex_path_env []) ''caddy.log''
          (fresh_process {''/'', ''/home'', ''/home/dev'', ''/home/dev/app'', ''/home/dev/app/.asd''})))
     ''/home/dev/app/.asd/workspace/logs'' \<and>
   tree_exists (snd (resolveBinDir (ex_path_env [])
          (fresh_process {''/'', ''/home'', ''/home/dev'', ''/home/dev/app'', ''/home/dev/app/.asd''})))
     ''/home/dev/.local/share/asd/bin'' \<and>
   resolveBinDir (ex_path_env [(''ASD_BIN_DIR'', '' /opt/asd/bin '')]) (fresh_process {''/''}) =
     (''/opt/asd/bin'', fresh_process {''/''})"
proof -
  let ?pe = "ex_path_env []"
  let ?pw = "ex_path_env [(''ASD_WORKSPACE_DIR'', ''data/ws'')]"
  let ?pb = "ex_path_env [(''ASD_BIN_DIR'', '' /opt/asd/bin '')]"
  let ?st = "fresh_process {''/'', ''/home'', ''/home/dev'', ''/home/dev/app'', ''/home/dev/app/.asd''}"
  note t = resolvers_create_tree [of ?pe "''/home/dev/app''" ?st "''caddy.log''"]
  note u = resolvers_create_tree [of ?pw "''/home/dev/app''" ?st "''caddy.log''"]
  note v = resolvers_create_tree [of ?pb "''/''" "fresh_process {''/''}" "''caddy.log''"]
  have p: "parents_exist ?st" by code_simp
  have n: "\<not> set_and_not_blank (env_var ?pe ''ASD_BIN_DIR'')" by code_simp
  have s: "\<not> set_and_not_blank (env_or ?pe ''SANDBOX_DIR'' ''EXECUTION_DIR'')" by code_simp
  have m: "set_and_not_blank (env_var ?pb ''ASD_BIN_DIR'')" by code_simp
  have tv: "trim (value_of (env_var ?pb ''ASD_BIN_DIR'')) = ''/opt/asd/bin''" by code_simp
  have w: "fst (resolveWorkspaceDir ?pe ''/home/dev/app'' ?st) = ''/home/dev/app/.asd/workspace''"
    by code_simp
  have wc: "fst (resolveWorkspaceDir ?pe (cwd ?pe) ?st) = ''/home/dev/app/.asd/workspace''"
    by code_simp
  have x: "\<not> existsSync ?st ''/home/dev/app/.asd/workspace''" by code_simp
  have jt: "join [''/home/dev/app/.asd/workspace'', ''tunnels''] = ''/home/dev/app/.asd/workspace/tunnels''"
    by code_simp
  have jl: "join [''/home/dev/app/.asd/workspace'', ''logs''] = ''/home/dev/app/.asd/workspace/logs''"
    by code_simp
  have ww: "fst (resolveWorkspaceDir ?pw ''/home/dev/app'' ?st) = ''/home/dev/app/data/ws''"
    by code_simp
  have l: "fst (resolveLogPath ?pe ''caddy.log'' ?st) = ''/home/dev/app/.asd/workspace/logs/caddy.log''"
    by code_simp
  have b: "fst (resolveBinDir ?pe ?st) = ''/home/dev/.local/share/asd/bin''"
    by code_simp
  have a1: "tree_exists (snd (resolveWorkspaceDir ?pe ''/home/dev/app'' ?st)) ''/home/dev/app/.asd/workspace''"
    using t p w by simp
  have a2: "existsSync (snd (resolveWorkspaceDir ?pe ''/home/dev/app'' ?st))
      ''/home/dev/app/.asd/workspace/tunnels''"
    using t x s w jt by simp
  have a3: "tree_exists (snd (resolveWorkspaceDir ?pw ''/home/dev/app'' ?st)) ''/home/dev/app/data/ws''"
    using u p ww by simp
  have a4: "tree_exists (snd (resolveLogPath ?pe ''caddy.log'' ?st)) ''/home/dev/app/.asd/workspace/logs''"
    using t p wc jl by simp
  have a5: "tree_exists (snd (resolveBinDir ?pe ?st)) ''/home/dev/.local/share/asd/bin''"
    using t p n b by simp
  have a6: "resolveBinDir ?pb (fresh_process {''/''}) = (''/opt/asd/bin'', fresh_process {''/''})"
    using v m tv by simp
  show ?thesis using w ww l a1 a2 a3 a4 a5 a6 by simp
qed

theorem misconfiguration_warning_once_witness:
  "length (stderr (run_calls
      [ResolveWorkspaceDir (ex_path_env [(''ASD_WORKSPACE_DIR'', ''.asd/.asd/ws'')]) ''/home/dev/app'',
       ResolveWorkspaceDir (ex_path_env [(''ASD_WORKSPACE_DIR'', ''.asd/.asd/ws'')]) ''/home/dev/app'',
       ResolveLogPath (ex_path_env [(''ASD_WORKSPACE_DIR'', ''.asd/.asd/ws'')]) ''caddy.log'']
      (fresh_process {''/home/dev/app''}))) \<le> 1 \<and>
   stderr (run_calls
      [ResolveWorkspaceDir (ex_path_env [(''ASD_WORKSPACE_DIR'', ''.asd/.asd/ws'')]) ''/home/dev/app'',
       ResolveWorkspaceDir (ex_path_env [(''ASD_WORKSPACE_DIR'', ''.asd/.asd/ws'')]) ''/home/dev/app'',
       ResolveLogPath (ex_path_env [(''ASD_WORKSPACE_DIR'', ''.asd/.asd/ws'')]) ''caddy.log'']
      (fresh_process {''/home/dev/app''})) = [''/home/dev/app/.asd/.asd/ws''] \<and>
   fst (resolveWorkspaceDir (ex_path_env []) ''/home/runner/work/.asd/.asd'' (fresh_process {})) =
     ''/home/runner/work/.asd/.asd/.asd/workspace'' \<and>
   stderr (snd (resolveWorkspaceDir (ex_path_env []) ''/home/runner/work/.asd/.asd'' (fresh_process {}))) = []"
proof -
  let ?pe = "ex_path_env [(''ASD_WORKSPACE_DIR'', ''.asd/.asd/ws'')]"
  let ?calls = "[ResolveWorkspaceDir ?pe ''/home/dev/app'', ResolveWorkspaceDir ?pe ''/home/dev/app'',
                 ResolveLogPath ?pe ''caddy.log'']"
  note t = misconfiguration_warning_once [of ?calls "{''/home/dev/app''}" "fresh_process {}"
             "ex_path_env []" "''/home/runner/work/.asd/.asd''"]
  have a: "length (stderr (run_calls ?calls (fresh_process {''/home/dev/app''}))) \<le> 1"
    using t by blast
  have b: "stderr (run_calls ?calls (fresh_process {''/home/dev/app''})) = [''/home/dev/app/.asd/.asd/ws'']"
    by code_simp
  have c: "fst (resolveWorkspaceDir (ex_path_env []) ''/home/runner/work/.asd/.asd'' (fresh_process {})) =
     ''/home/runner/work/.asd/.asd/.asd/workspace''"
    by code_simp
  have i: "str_includes ''/home/runner/work/.asd/.asd/.asd/workspace'' ''/work/.asd/.asd''"
    by code_simp
  have d: "stderr (snd (resolveWorkspaceDir (ex_path_env []) ''/home/runner/work/.asd/.asd'' (fresh_process {}))) =
      stderr (fresh_process {})"
    using t c i by simp
  show ?thesis using a b c d by (simp add: fresh_process_def)
qed

end
